theory Spec2Isabelle
  imports Complex_Main "HOL-Library.AList"
begin

section \<open>Strings of the host language\<close>

text \<open>
  A JavaScript string is a sequence of UTF-16 code units; a code unit is modelled by its
  number. \<open>cu\<close> turns an ASCII literal into that representation.
\<close>

type_synonym jstr = "nat list"

definition cu :: "string \<Rightarrow> jstr" where
  "cu s = map of_char s"

text \<open>
  White space as \<open>String.prototype.trim\<close> and the regular expression class \<open>\s\<close> see it
  (WhiteSpace and LineTerminator of ECMAScript), and the line terminators that \<open>.\<close> does not
  match.
\<close>

definition is_ws :: "nat \<Rightarrow> bool" where
  "is_ws c = (c \<in> {9, 10, 11, 12, 13, 32, 160, 5760, 8232, 8233, 8239, 8287, 12288, 65279}
              \<or> (8192 \<le> c \<and> c \<le> 8202))"

definition is_line_terminator :: "nat \<Rightarrow> bool" where
  "is_line_terminator c = (c \<in> {10, 13, 8232, 8233})"

definition is_digit :: "nat \<Rightarrow> bool" where
  "is_digit c = (48 \<le> c \<and> c \<le> 57)"

definition trim :: "jstr \<Rightarrow> jstr" where
  "trim s = rev (dropWhile is_ws (rev (dropWhile is_ws s)))"

text \<open>
  \<open>toLowerCase\<close> on Basic Latin and Latin-1: the capitals A-Z and U+00C0-U+00DE (without the
  multiplication sign) move to their small letters. Code units above U+00FF are left as they
  are: the Unicode case tables are not part of the model.
\<close>

definition lower_cu :: "nat \<Rightarrow> nat" where
  "lower_cu c = (if (65 \<le> c \<and> c \<le> 90) \<or> (192 \<le> c \<and> c \<le> 222 \<and> c \<noteq> 215)
                 then c + 32 else c)"

definition toLowerCase :: "jstr \<Rightarrow> jstr" where
  "toLowerCase s = map lower_cu s"

definition startsWith :: "jstr \<Rightarrow> jstr \<Rightarrow> bool" where
  "startsWith s p = (take (length p) s = p)"

definition endsWith :: "jstr \<Rightarrow> jstr \<Rightarrow> bool" where
  "endsWith s p = (length p \<le> length s \<and> drop (length s - length p) s = p)"

fun str_includes :: "jstr \<Rightarrow> jstr \<Rightarrow> bool" where
  "str_includes [] p = (p = [])"
| "str_includes (c # cs) p = (startsWith (c # cs) p \<or> str_includes cs p)"

text \<open>The decimal rendering of an integer, as a template literal or \<open>String\<close> gives it.\<close>

fun show_nat :: "nat \<Rightarrow> jstr" where
  "show_nat n = (if n < 10 then [48 + n] else show_nat (n div 10) @ [48 + n mod 10])"

declare show_nat.simps [simp del]

definition show_int :: "int \<Rightarrow> jstr" where
  "show_int i = (if i < 0 then 45 # show_nat (nat (- i)) else show_nat (nat i))"

definition padStart :: "nat \<Rightarrow> nat \<Rightarrow> jstr \<Rightarrow> jstr" where
  "padStart n c s = replicate (n - length s) c @ s"

text \<open>\<open>Array.prototype.join\<close> on strings.\<close>

fun join :: "jstr \<Rightarrow> jstr list \<Rightarrow> jstr" where
  "join sep [] = []"
| "join sep [x] = x"
| "join sep (x # y # ys) = x @ sep @ join sep (y # ys)"

text \<open>\<open>s.split(sep)\<close> for a separator of one code unit.\<close>

fun split_on :: "nat \<Rightarrow> jstr \<Rightarrow> jstr list" where
  "split_on sep [] = [[]]"
| "split_on sep (c # cs) =
     (if c = sep then [] # split_on sep cs
      else (case split_on sep cs of [] \<Rightarrow> [[c]] | p # ps \<Rightarrow> (c # p) # ps))"

section \<open>Numbers\<close>

text \<open>
  A JavaScript number is modelled by the exact value it denotes, or one of NaN and the two
  infinities. The rounding of a decimal literal to the nearest binary64 number, and the sign
  of zero, are not modelled: the model agrees with the program on the values that binary64
  represents exactly.
\<close>

datatype jsnum = Fin rat | NaN | PosInf | NegInf

definition digits_val :: "jstr \<Rightarrow> nat" where
  "digits_val ds = foldl (\<lambda>a c. 10 * a + (c - 48)) 0 ds"

definition pow10 :: "int \<Rightarrow> rat" where
  "pow10 e = (if 0 \<le> e then 10 ^ nat e else 1 / 10 ^ nat (- e))"

text \<open>
  \<open>ExponentPart\<close> of a decimal literal (\<open>e\<close> or \<open>E\<close>, an optional sign, digits) read to the
  end of the string; \<open>None\<close> when the rest is not an exponent part.
\<close>

definition parseExponent :: "jstr \<Rightarrow> int option" where
  "parseExponent r =
     (case r of
        [] \<Rightarrow> Some 0
      | c # ds \<Rightarrow>
          if c = 101 \<or> c = 69 then
            (case ds of
               [] \<Rightarrow> None
             | d # ds' \<Rightarrow>
                 if d = 43 then
                   (if ds' \<noteq> [] \<and> list_all is_digit ds' then Some (int (digits_val ds')) else None)
                 else if d = 45 then
                   (if ds' \<noteq> [] \<and> list_all is_digit ds' then Some (- int (digits_val ds')) else None)
                 else if list_all is_digit ds then Some (int (digits_val ds)) else None)
          else None)"

text \<open>\<open>StrUnsignedDecimalLiteral\<close>: \<open>Infinity\<close>, \<open>digits.digits?exp?\<close>, \<open>.digits exp?\<close>, \<open>digits exp?\<close>.\<close>

definition parseUnsignedDecimal :: "jstr \<Rightarrow> jsnum" where
  "parseUnsignedDecimal s =
     (if s = cu ''Infinity'' then PosInf
      else
        let ip = takeWhile is_digit s;
            r1 = dropWhile is_digit s;
            dot = (r1 \<noteq> [] \<and> hd r1 = 46);
            fp = (if dot then takeWhile is_digit (tl r1) else []);
            r2 = (if dot then dropWhile is_digit (tl r1) else r1)
        in if ip = [] \<and> fp = [] then NaN
           else (case parseExponent r2 of
                   None \<Rightarrow> NaN
                 | Some e \<Rightarrow>
                     Fin ((of_nat (digits_val ip) + of_nat (digits_val fp) / 10 ^ length fp)
                          * pow10 e)))"

definition radix_digit :: "nat \<Rightarrow> nat option" where
  "radix_digit c =
     (if 48 \<le> c \<and> c \<le> 57 then Some (c - 48)
      else if 97 \<le> c \<and> c \<le> 102 then Some (c - 87)
      else if 65 \<le> c \<and> c \<le> 70 then Some (c - 55)
      else None)"

text \<open>\<open>NonDecimalIntegerLiteral\<close> without its prefix, in the given radix.\<close>

definition parseRadix :: "nat \<Rightarrow> jstr \<Rightarrow> jsnum" where
  "parseRadix b ds =
     (if ds \<noteq> [] \<and> list_all (\<lambda>c. case radix_digit c of None \<Rightarrow> False | Some d \<Rightarrow> d < b) ds
      then Fin (of_nat (foldl (\<lambda>a c. b * a + the (radix_digit c)) 0 ds))
      else NaN)"

definition negate :: "jsnum \<Rightarrow> jsnum" where
  "negate n = (case n of Fin q \<Rightarrow> Fin (- q) | NaN \<Rightarrow> NaN | PosInf \<Rightarrow> NegInf | NegInf \<Rightarrow> PosInf)"

text \<open>
  \<open>Number(s)\<close> for a string (StringToNumber): white space is trimmed, the empty string is 0,
  a literal with a \<open>0x\<close>, \<open>0o\<close> or \<open>0b\<close> prefix is an integer in that radix, anything else is
  an optionally signed decimal literal, and a string that is none of these is NaN.
\<close>

definition Number_of_string :: "jstr \<Rightarrow> jsnum" where
  "Number_of_string str =
     (let s = trim str in
      if s = [] then Fin 0
      else if startsWith s (cu ''0x'') \<or> startsWith s (cu ''0X'') then parseRadix 16 (drop 2 s)
      else if startsWith s (cu ''0o'') \<or> startsWith s (cu ''0O'') then parseRadix 8 (drop 2 s)
      else if startsWith s (cu ''0b'') \<or> startsWith s (cu ''0B'') then parseRadix 2 (drop 2 s)
      else if hd s = 43 then parseUnsignedDecimal (tl s)
      else if hd s = 45 then negate (parseUnsignedDecimal (tl s))
      else parseUnsignedDecimal s)"

text \<open>\<open>parsed / 100\<close>.\<close>

definition div100 :: "jsnum \<Rightarrow> jsnum" where
  "div100 n = (case n of Fin q \<Rightarrow> Fin (q / 100) | NaN \<Rightarrow> NaN | PosInf \<Rightarrow> PosInf | NegInf \<Rightarrow> NegInf)"

section \<open>Values\<close>

text \<open>
  The raw cell values are what \<open>JSON.parse\<close> produces, and \<open>undefined\<close> for a property that
  is not there. An object is the list of its own properties; reading a property that is not
  in the list gives \<open>undefined\<close>, for an array too (the program reads only named properties
  that arrays do not have).
\<close>

datatype jsvalue =
    JUndefined | JNull | JBool bool | JNum jsnum | JStr jstr
  | JArr "jsvalue list" | JObj "(jstr \<times> jsvalue) list"

fun get_prop :: "jsvalue \<Rightarrow> jstr \<Rightarrow> jsvalue" where
  "get_prop (JObj kvs) k = (case map_of kvs k of Some v \<Rightarrow> v | None \<Rightarrow> JUndefined)"
| "get_prop v k = JUndefined"

text \<open>\<open>k in v\<close> for an object or array \<open>v\<close>.\<close>

fun has_prop :: "jsvalue \<Rightarrow> jstr \<Rightarrow> bool" where
  "has_prop (JObj kvs) k = (map_of kvs k \<noteq> None)"
| "has_prop v k = False"

fun isString :: "jsvalue \<Rightarrow> bool" where
  "isString (JStr s) = True"
| "isString v = False"

fun isNumber :: "jsvalue \<Rightarrow> bool" where
  "isNumber (JNum n) = True"
| "isNumber v = False"

text \<open>\<open>typeof v === "object" && v !== null\<close>.\<close>

fun isObject :: "jsvalue \<Rightarrow> bool" where
  "isObject (JArr xs) = True"
| "isObject (JObj kvs) = True"
| "isObject v = False"

fun isArray :: "jsvalue \<Rightarrow> bool" where
  "isArray (JArr xs) = True"
| "isArray v = False"

text \<open>The string a value is when it is a string, and the empty string otherwise.\<close>

fun str_of :: "jsvalue \<Rightarrow> jstr" where
  "str_of (JStr s) = s"
| "str_of v = []"

text \<open>Truthiness: what \<open>Boolean(v)\<close>, \<open>!v\<close> and a condition see.\<close>

fun truthy :: "jsvalue \<Rightarrow> bool" where
  "truthy JUndefined = False"
| "truthy JNull = False"
| "truthy (JBool b) = b"
| "truthy (JNum n) = (n \<noteq> NaN \<and> n \<noteq> Fin 0)"
| "truthy (JStr s) = (s \<noteq> [])"
| "truthy (JArr xs) = True"
| "truthy (JObj kvs) = True"

section \<open>Library functions taken as parameters\<close>

text \<open>
  A \<open>Date\<close> object as the values its getters return. \<open>month\<close> and \<open>utcMonth\<close> count from 0.
\<close>

record jsdate =
  toISOString :: jstr
  getUTCFullYear :: int
  getUTCMonth :: int
  getUTCDate :: int
  getFullYear :: int
  getMonth :: int
  getDate :: int
  getHours :: int
  getMinutes :: int
  getSeconds :: int
  getMilliseconds :: int

text \<open>
  The functions of the JavaScript library and of the packages \<open>marked\<close> and \<open>sanitize-html\<close>
  that the program calls and the model does not define: the rendering of a number as a
  string, \<open>new Date(s)\<close> for a string (\<open>None\<close> for an invalid date, whose \<open>getTime()\<close> is NaN;
  the local-time getters depend on the time zone of the machine), \<open>JSON.stringify\<close>,
  \<open>marked.parse\<close>, and \<open>sanitizeHtml\<close> with the allow-lists of \<open>markdownToSanitizedHtml\<close>.
\<close>

record host =
  Number_toString :: "jsnum \<Rightarrow> jstr"
  new_Date :: "jstr \<Rightarrow> jsdate option"
  JSON_stringify :: "jsvalue \<Rightarrow> jstr"
  marked_parse :: "jstr \<Rightarrow> jstr"
  sanitizeHtml :: "jstr \<Rightarrow> jstr"

text \<open>
  \<open>String(v)\<close>: an array is its elements joined by commas, with \<open>null\<close> and \<open>undefined\<close>
  elements empty; an object is \<open>[object Object]\<close>.
\<close>

fun js_String :: "host \<Rightarrow> jsvalue \<Rightarrow> jstr"
  and js_String_elems :: "host \<Rightarrow> jsvalue list \<Rightarrow> jstr list" where
  "js_String h JUndefined = cu ''undefined''"
| "js_String h JNull = cu ''null''"
| "js_String h (JBool b) = (if b then cu ''true'' else cu ''false'')"
| "js_String h (JNum n) = Number_toString h n"
| "js_String h (JStr s) = s"
| "js_String h (JArr xs) = join (cu '','') (js_String_elems h xs)"
| "js_String h (JObj kvs) = cu ''[object Object]''"
| "js_String_elems h [] = []"
| "js_String_elems h (x # xs) =
     (if x = JUndefined \<or> x = JNull then [] else js_String h x) # js_String_elems h xs"

section \<open>Text extraction and markdown stripping\<close>

text \<open>\<open>markdownToSanitizedHtml\<close>: \<open>marked.parse\<close>, then \<open>sanitizeHtml\<close>.\<close>

definition markdownToSanitizedHtml :: "host \<Rightarrow> jstr \<Rightarrow> jstr" where
  "markdownToSanitizedHtml h markdown = sanitizeHtml h (marked_parse h markdown)"

text \<open>\<open>typeof v === "string" && v\<close>, read as a condition: a string that is not empty.\<close>

definition nonEmptyString :: "jsvalue \<Rightarrow> bool" where
  "nonEmptyString v = (isString v \<and> str_of v \<noteq> [])"

definition extractMeaningfulText :: "host \<Rightarrow> jsvalue \<Rightarrow> jstr" where
  "extractMeaningfulText h item =
     (if isString item then str_of item
      else if truthy item \<and> isObject item \<and> \<not> isArray item then
        (if has_prop item (cu ''url'') \<and> isString (get_prop item (cu ''url''))
            \<and> get_prop item (cu ''@type'') = JStr (cu ''WebPage'')
         then str_of (get_prop item (cu ''url''))
         else if nonEmptyString (get_prop item (cu ''rawValue''))
           then str_of (get_prop item (cu ''rawValue''))
         else if nonEmptyString (get_prop item (cu ''value''))
           then str_of (get_prop item (cu ''value''))
         else if nonEmptyString (get_prop item (cu ''displayValue''))
           then str_of (get_prop item (cu ''displayValue''))
         else if nonEmptyString (get_prop item (cu ''name''))
           then str_of (get_prop item (cu ''name''))
         else if nonEmptyString (get_prop item (cu ''content''))
           then str_of (get_prop item (cu ''content''))
         else js_String h item)
      else js_String h item)"

text \<open>
  The regular expressions of \<open>stripMarkdown\<close>, each as the scan it performs. Code units:
  91 \<open>[\<close>, 93 \<open>]\<close>, 40 \<open>(\<close>, 41 \<open>)\<close>, 96 the backtick, 33 \<open>!\<close>.

  \<open>/\[([^\]]+)]\(([^)]+)\)/\<close>, tried on the text after an opening bracket: the link text
  runs to the first closing bracket and is not empty, \<open>](\<close> follows, the url runs to the
  first closing parenthesis and is not empty. The result is the text, the url and what is
  left after the match.
\<close>

definition matchLink :: "jstr \<Rightarrow> (jstr \<times> jstr \<times> jstr) option" where
  "matchLink s =
     (let linkText = takeWhile (\<lambda>c. c \<noteq> 93) s;
          r1 = dropWhile (\<lambda>c. c \<noteq> 93) s
      in if linkText = [] \<or> \<not> startsWith r1 [93, 40] then None
         else
           let r2 = drop 2 r1;
               linkUrl = takeWhile (\<lambda>c. c \<noteq> 41) r2;
               r3 = dropWhile (\<lambda>c. c \<noteq> 41) r2
           in if linkUrl = [] \<or> r3 = [] then None
              else Some (linkText, linkUrl, tl r3))"

text \<open>The replacement function of the first \<open>replace\<close>: every branch keeps the link text,
  but a \<open>mailto:\<close> link whose text is its address gives the address.\<close>

definition linkReplacement :: "jstr \<Rightarrow> jstr \<Rightarrow> jstr" where
  "linkReplacement linkText linkUrl =
     (if startsWith linkUrl (cu ''mailto:'') then
        (let emailFromUrl = drop 7 linkUrl
         in if toLowerCase linkText = toLowerCase emailFromUrl then emailFromUrl else linkText)
      else linkText)"

lemma matchLink_shorter:
  "matchLink s = Some (t, u, r) \<Longrightarrow> length r < Suc (length s)"
proof -
  assume m: "matchLink s = Some (t, u, r)"
  let ?r1 = "dropWhile (\<lambda>c. c \<noteq> 93) s"
  let ?r3 = "dropWhile (\<lambda>c. c \<noteq> 41) (drop 2 ?r1)"
  from m have "r = tl ?r3"
    by (auto simp: matchLink_def Let_def split: if_splits)
  moreover have "length ?r3 \<le> length (drop 2 ?r1)" by (rule length_dropWhile_le)
  moreover have "length ?r1 \<le> length s" by (rule length_dropWhile_le)
  ultimately show ?thesis by simp
qed

function replaceLinks :: "jstr \<Rightarrow> jstr" where
  "replaceLinks [] = []"
| "replaceLinks (c # cs) =
     (if c = 91 then
        (case matchLink cs of
           Some (linkText, linkUrl, rest) \<Rightarrow> linkReplacement linkText linkUrl @ replaceLinks rest
         | None \<Rightarrow> c # replaceLinks cs)
      else c # replaceLinks cs)"
  by pat_completeness auto
termination
  by (relation "measure length") (auto dest: matchLink_shorter)

text \<open>
  \<open>/```([\s\S]*?)```/g\<close>: from an opening fence the group runs, as short as possible, to
  the next fence; \<open>find_fence\<close> splits a text at its first fence.
\<close>

definition fence :: jstr where
  "fence = [96, 96, 96]"

fun find_fence :: "jstr \<Rightarrow> (jstr \<times> jstr) option" where
  "find_fence [] = None"
| "find_fence (c # cs) =
     (if startsWith (c # cs) fence then Some ([], drop 3 (c # cs))
      else (case find_fence cs of
              None \<Rightarrow> None
            | Some (before, after) \<Rightarrow> Some (c # before, after)))"

lemma find_fence_shorter:
  "find_fence s = Some (b, a) \<Longrightarrow> length a \<le> length s"
  by (induction s arbitrary: b) (auto split: if_splits option.splits)

function replaceFences :: "jstr \<Rightarrow> jstr" where
  "replaceFences [] = []"
| "replaceFences (c # cs) =
     (if startsWith (c # cs) fence then
        (case find_fence (drop 3 (c # cs)) of
           Some (group1, rest) \<Rightarrow> trim group1 @ replaceFences rest
         | None \<Rightarrow> c # replaceFences cs)
      else c # replaceFences cs)"
  by pat_completeness auto
termination
  by (relation "measure length")
     (auto simp: le_imp_less_Suc dest!: find_fence_shorter)

text \<open>\<open>/`([^`]*)`/g\<close>: from a backtick the group runs to the next backtick.\<close>

function replaceTicks :: "jstr \<Rightarrow> jstr" where
  "replaceTicks [] = []"
| "replaceTicks (c # cs) =
     (if c = 96 \<and> dropWhile (\<lambda>d. d \<noteq> 96) cs \<noteq> [] then
        trim (takeWhile (\<lambda>d. d \<noteq> 96) cs) @ replaceTicks (tl (dropWhile (\<lambda>d. d \<noteq> 96) cs))
      else c # replaceTicks cs)"
  by pat_completeness auto
termination
proof (relation "measure length", goal_cases)
  case 1
  then show ?case by simp
next
  case (2 c cs)
  have "length (dropWhile (\<lambda>d. d \<noteq> 96) cs) \<le> length cs" by (rule length_dropWhile_le)
  then show ?case by simp
next
  case 3
  then show ?case by simp
qed

definition stripMarkdown :: "jstr \<Rightarrow> jstr" where
  "stripMarkdown text = trim (replaceTicks (replaceFences (replaceLinks text)))"

text \<open>
  \<open>extractUrlFromMarkdown\<close>. \<open>/!\[[^\]]*\]\(([^)]+)\)/\<close> is searched from the left;
  \<open>matchImageTail\<close> is the match after \<open>![\<close>.
\<close>

definition matchImageTail :: "jstr \<Rightarrow> jstr option" where
  "matchImageTail s =
     (let r1 = dropWhile (\<lambda>c. c \<noteq> 93) s
      in if \<not> startsWith r1 [93, 40] then None
         else
           let r2 = drop 2 r1;
               url = takeWhile (\<lambda>c. c \<noteq> 41) r2;
               r3 = dropWhile (\<lambda>c. c \<noteq> 41) r2
           in if url = [] \<or> r3 = [] then None else Some url)"

fun findMdImage :: "jstr \<Rightarrow> jstr option" where
  "findMdImage [] = None"
| "findMdImage (c # cs) =
     (if c = 33 \<and> startsWith cs [91] then
        (case matchImageTail (tl cs) of
           Some url \<Rightarrow> Some url
         | None \<Rightarrow> findMdImage cs)
      else findMdImage cs)"

definition extractUrlFromMarkdown :: "jstr \<Rightarrow> jstr" where
  "extractUrlFromMarkdown text =
     (case findMdImage text of
        Some url \<Rightarrow> trim url
      | None \<Rightarrow>
          if 6 \<le> length text \<and> startsWith text fence \<and> endsWith text fence
          then trim (take (length text - 6) (drop 3 text))
          else if 2 \<le> length text \<and> hd text = 96 \<and> last text = 96
                  \<and> 96 \<notin> set (butlast (tl text))
          then trim (butlast (tl text))
          else trim text)"

definition isValidAssetUrl :: "jstr \<Rightarrow> bool" where
  "isValidAssetUrl url =
     (let trimmed = trim url
      in startsWith trimmed (cu ''http://'') \<or> startsWith trimmed (cu ''https://'')
         \<or> str_includes trimmed (cu ''codahosted.io/''))"

text \<open>
  \<open>isLikelyImageUrl\<close>. The first expression has the flag \<open>i\<close>: a letter of the pattern
  matches its own two cases. After the protocol come one or more code units that are not
  white space, a dot, one of the extensions, and optionally a question mark with a rest
  free of line terminators, up to the end.
\<close>

definition ascii_lower :: "nat \<Rightarrow> nat" where
  "ascii_lower c = (if 65 \<le> c \<and> c \<le> 90 then c + 32 else c)"

definition ci_startsWith :: "jstr \<Rightarrow> jstr \<Rightarrow> bool" where
  "ci_startsWith s p = (map ascii_lower (take (length p) s) = p)"

definition imageExtensions :: "jstr list" where
  "imageExtensions =
     [cu ''jpg'', cu ''jpeg'', cu ''png'', cu ''gif'', cu ''webp'', cu ''svg'', cu ''bmp'',
      cu ''tif'', cu ''tiff'', cu ''ico'', cu ''apng'', cu ''avif'']"

definition extensionAndQuery :: "jstr \<Rightarrow> bool" where
  "extensionAndQuery t =
     list_ex
       (\<lambda>ext. ci_startsWith t ext \<and>
          (let q = drop (length ext) t
           in q = [] \<or> (hd q = 63 \<and> list_all (\<lambda>c. \<not> is_line_terminator c) (tl q))))
       imageExtensions"

definition imageFileUrl :: "jstr \<Rightarrow> bool" where
  "imageFileUrl s =
     (let rest = (if ci_startsWith s (cu ''https://'') then Some (drop 8 s)
                  else if ci_startsWith s (cu ''http://'') then Some (drop 7 s)
                  else None)
      in case rest of
           None \<Rightarrow> False
         | Some r \<Rightarrow>
             list_ex
               (\<lambda>i. list_all (\<lambda>c. \<not> is_ws c) (take i r) \<and> r ! i = 46
                    \<and> extensionAndQuery (drop (Suc i) r))
               [1..<length r])"

definition isLikelyImageUrl :: "jstr \<Rightarrow> bool" where
  "isLikelyImageUrl url =
     (let trimmed = trim url
      in imageFileUrl trimmed
         \<or> startsWith trimmed (cu ''http://codahosted.io/'')
         \<or> startsWith trimmed (cu ''https://codahosted.io/''))"

section \<open>The destination schema\<close>

text \<open>
  The field types of the destination system. The type tag is a string in the program; the
  eleven tags the program knows are constructors, and \<open>FOther\<close> stands for any other tag, so
  that the \<open>default\<close> branches of the program are branches of the model.
\<close>

datatype fieldType =
    FString | FNumber | FBoolean | FDate | FImage | FFile | FFormattedText | FLink
  | FEnum | FCollectionReference | FMultiCollectionReference | FOther jstr

record enumCase =
  case_id :: jstr
  case_name :: jstr

text \<open>\<open>ManagedCollectionFieldInput\<close>: optional properties are \<open>option\<close>s.\<close>

record field =
  field_id :: jstr
  field_name :: jstr
  field_type :: fieldType
  field_cases :: "enumCase list option"
  collectionId :: "jstr option"
  allowedFileTypes :: "jstr list option"

section \<open>The source table\<close>

record choice =
  choice_name :: jstr
  choice_id :: "jstr option"

text \<open>\<open>format.options\<close>: a bare array of choices, or an object with an optional \<open>choices\<close>.\<close>

datatype columnOptions = OptionsArray "choice list" | OptionsObject "choice list option"

record tableRef =
  table_id :: "jstr option"

record columnFormat =
  format_type :: jstr
  format_isArray :: "bool option"
  format_table :: "tableRef option"
  format_options :: "columnOptions option"

record column =
  column_id :: jstr
  column_name :: jstr
  column_format :: columnFormat

text \<open>\<open>NormalizedRow\<close>: \<open>values\<close> is the list of the own properties of the object, in the
  order \<open>Object.entries\<close> gives them.\<close>

record normalizedRow =
  row_id :: "jstr option"
  row_values :: "(jstr \<times> jsvalue) list"

definition rowValue :: "normalizedRow \<Rightarrow> jstr \<Rightarrow> jsvalue" where
  "rowValue row k = (case map_of (row_values row) k of Some v \<Rightarrow> v | None \<Rightarrow> JUndefined)"

record referenceMapEntry =
  codaTableId :: "jstr option"
  framerCollectionId :: "jstr option"

record fieldDataEntry =
  entry_type :: fieldType
  entry_value :: jsvalue

record item =
  item_id :: jstr
  slug :: jstr
  draft :: bool
  fieldData :: "(jstr \<times> fieldDataEntry) list"

record mappingResult =
  result_fields :: "field list"
  result_items :: "item list"
  warnings :: "jstr list"
  skippedCount :: nat

section \<open>Reference Map Builder\<close>

text \<open>\<open>!entry?.codaTableId\<close>: the property is missing or the empty string.\<close>

definition missing :: "jstr option \<Rightarrow> bool" where
  "missing x = (case x of None \<Rightarrow> True | Some s \<Rightarrow> s = [])"

definition buildReferenceMap :: "referenceMapEntry list \<Rightarrow> (jstr \<rightharpoonup> jstr)" where
  "buildReferenceMap entries =
     fold (\<lambda>entry m.
             if missing (codaTableId entry) \<or> missing (framerCollectionId entry) then m
             else m(the (codaTableId entry) \<mapsto> the (framerCollectionId entry)))
          entries Map.empty"

section \<open>Type Mapper\<close>

definition mkField :: "column \<Rightarrow> fieldType \<Rightarrow> field" where
  "mkField col t =
     \<lparr>field_id = column_id col, field_name = column_name col, field_type = t,
      field_cases = None, collectionId = None, allowedFileTypes = None\<rparr>"

text \<open>\<open>Array.isArray(options) ? options : options?.choices\<close>.\<close>

definition enumChoices :: "column \<Rightarrow> choice list option" where
  "enumChoices col =
     (case format_options (column_format col) of
        None \<Rightarrow> None
      | Some (OptionsArray cs) \<Rightarrow> Some cs
      | Some (OptionsObject cs) \<Rightarrow> cs)"

text \<open>\<open>choice.id || choice.name || `choice-${index}`\<close>.\<close>

definition choiceCase :: "choice \<Rightarrow> nat \<Rightarrow> enumCase" where
  "choiceCase ch index =
     \<lparr>case_id = (if \<not> missing (choice_id ch) then the (choice_id ch)
                 else if choice_name ch \<noteq> [] then choice_name ch
                 else cu ''choice-'' @ show_nat index),
      case_name = choice_name ch\<rparr>"

definition isArrayColumn :: "column \<Rightarrow> bool" where
  "isArrayColumn col = (format_isArray (column_format col) = Some True)"

definition mapCodaTypeToFramerType :: "column \<Rightarrow> field option" where
  "mapCodaTypeToFramerType col =
     (let baseType = toLowerCase (format_type (column_format col));
          name = toLowerCase (column_name col);
          ident = toLowerCase (column_id col)
      in if baseType = cu ''button'' then None
         else if baseType = cu ''image'' \<or> str_includes name (cu ''image'')
                 \<or> str_includes name (cu ''graphic'') \<or> str_includes ident (cu ''image'')
                 \<or> str_includes ident (cu ''graphic'')
           then Some (mkField col FImage)
         else if (baseType = cu ''select'' \<or> baseType = cu ''scale'') \<and> enumChoices col \<noteq> None
           then Some ((mkField col FEnum)
                  \<lparr>field_cases :=
                     Some (map (\<lambda>(ch, index). choiceCase ch index)
                             (zip (the (enumChoices col))
                                  [0..<length (the (enumChoices col))]))\<rparr>)
         else if baseType \<in> {cu ''text'', cu ''email'', cu ''phone''}
           then Some (mkField col FString)
         else if baseType \<in> {cu ''number'', cu ''currency'', cu ''percent'', cu ''duration''}
           then Some (mkField col FNumber)
         else if baseType = cu ''checkbox'' then Some (mkField col FBoolean)
         else if baseType \<in> {cu ''date'', cu ''datetime''} then Some (mkField col FDate)
         else if baseType = cu ''time'' then Some (mkField col FString)
         else if baseType = cu ''image'' then Some (mkField col FImage)
         else if baseType = cu ''file''
           then Some ((mkField col FFile)\<lparr>allowedFileTypes := Some [cu ''*'']\<rparr>)
         else if baseType \<in> {cu ''canvas'', cu ''richtext''}
           then Some (mkField col FFormattedText)
         else if baseType \<in> {cu ''person'', cu ''lookup'', cu ''reference''}
           then (if baseType = cu ''lookup'' \<and> \<not> isArrayColumn col
                 then Some ((mkField col FEnum)\<lparr>field_cases := Some []\<rparr>)
                 else Some (mkField col FString))
         else if baseType \<in> {cu ''url'', cu ''link''} then Some (mkField col FLink)
         else Some (mkField col FString))"

section \<open>Value Transformer\<close>

definition extractReferenceId :: "jsvalue \<Rightarrow> jstr option" where
  "extractReferenceId v =
     (if isString v then Some (str_of v)
      else if isObject v then
        (if isString (get_prop v (cu ''id'')) then Some (str_of (get_prop v (cu ''id'')))
         else if isString (get_prop v (cu ''@id'')) then Some (str_of (get_prop v (cu ''@id'')))
         else None)
      else None)"

text \<open>\<open>processItem\<close> of \<open>extractReferenceIds\<close>.\<close>

definition processItem :: "jsvalue \<Rightarrow> jstr option" where
  "processItem v =
     (if isString v then Some (str_of v)
      else if isObject v then
        (if isString (get_prop v (cu ''rowId'')) then Some (str_of (get_prop v (cu ''rowId'')))
         else if isString (get_prop v (cu ''id'')) then Some (str_of (get_prop v (cu ''id'')))
         else if isString (get_prop v (cu ''@id'')) then Some (str_of (get_prop v (cu ''@id'')))
         else None)
      else None)"

text \<open>\<open>if (id) itemIds.push(id)\<close>: an id that is \<open>null\<close> or empty is not pushed.\<close>

definition extractReferenceIds :: "jsvalue \<Rightarrow> jstr list" where
  "extractReferenceIds v =
     (let items = (case v of JArr xs \<Rightarrow> xs | _ \<Rightarrow> [v])
      in List.map_filter
           (\<lambda>x. case processItem x of
                   None \<Rightarrow> None
                 | Some i \<Rightarrow> if i = [] then None else Some i)
           items)"

text \<open>
  \<open>/^([0-1]?\d|2[0-3]):([0-5]\d)(:([0-5]\d))?$/\<close> with \<open>parseInt\<close> on its groups: hours,
  minutes and seconds of a bare time. Code unit 58 is the colon.
\<close>

definition validHour :: "jstr \<Rightarrow> bool" where
  "validHour hp =
     (case hp of
        [d] \<Rightarrow> is_digit d
      | [d1, d2] \<Rightarrow> ((d1 = 48 \<or> d1 = 49) \<and> is_digit d2) \<or> (d1 = 50 \<and> 48 \<le> d2 \<and> d2 \<le> 51)
      | _ \<Rightarrow> False)"

definition sixtyOk :: "nat \<Rightarrow> nat \<Rightarrow> bool" where
  "sixtyOk d1 d2 = (48 \<le> d1 \<and> d1 \<le> 53 \<and> is_digit d2)"

definition timeOnlyMatch :: "jstr \<Rightarrow> (int \<times> int \<times> int) option" where
  "timeOnlyMatch s =
     (let hp = takeWhile (\<lambda>c. c \<noteq> 58) s;
          r = dropWhile (\<lambda>c. c \<noteq> 58) s
      in if \<not> validHour hp then None
         else (case r of
                 [c0, m1, m2] \<Rightarrow>
                   if sixtyOk m1 m2 then Some (int (digits_val hp), int (digits_val [m1, m2]), 0)
                   else None
               | [c0, m1, m2, c1, s1, s2] \<Rightarrow>
                   if sixtyOk m1 m2 \<and> c1 = 58 \<and> sixtyOk s1 s2
                   then Some (int (digits_val hp), int (digits_val [m1, m2]),
                              int (digits_val [s1, s2]))
                   else None
               | _ \<Rightarrow> None))"

text \<open>\<open>a % b\<close> on integers, for a positive \<open>b\<close>: the remainder has the sign of \<open>a\<close>.\<close>

definition js_rem :: "int \<Rightarrow> int \<Rightarrow> int" where
  "js_rem a b = (if a < 0 then - ((- a) mod b) else a mod b)"

definition pad2 :: "int \<Rightarrow> jstr" where
  "pad2 n = padStart 2 48 (show_int n)"

definition formatTimeValue :: "host \<Rightarrow> jsvalue \<Rightarrow> bool \<Rightarrow> jstr option" where
  "formatTimeValue h v use12HourTime =
     (let parsed =
            (if isString v then
               (case timeOnlyMatch (str_of v) of
                  Some t \<Rightarrow> Some t
                | None \<Rightarrow>
                    (case new_Date h (str_of v) of
                       Some d \<Rightarrow> Some (getHours d, getMinutes d, getSeconds d)
                     | None \<Rightarrow> None))
             else None)
      in case parsed of
           None \<Rightarrow> None
         | Some (hours, minutes, secondsVal) \<Rightarrow>
             if use12HourTime then
               (let ampm = (if 12 \<le> hours then cu ''PM'' else cu ''AM'');
                    formattedHours = (if js_rem hours 12 = 0 then 12 else js_rem hours 12);
                    formattedTime = show_int formattedHours @ cu '':'' @ pad2 minutes
                in Some ((if 0 < secondsVal then formattedTime @ cu '':'' @ pad2 secondsVal
                          else formattedTime) @ cu '' '' @ ampm))
             else
               (let formattedTime = pad2 hours @ cu '':'' @ pad2 minutes
                in Some (if 0 < secondsVal then formattedTime @ cu '':'' @ pad2 secondsVal
                         else formattedTime)))"

text \<open>\<open>value.replace(/^```|```$/g, "")\<close>: a fence at the very start and a fence at the very
  end (after the first one) are removed.\<close>

definition stripFenceEnds :: "jstr \<Rightarrow> jstr" where
  "stripFenceEnds s =
     (let s1 = (if startsWith s fence then drop 3 s else s)
      in if endsWith s1 fence then take (length s1 - 3) s1 else s1)"

text \<open>The blank raw values: \<open>null\<close>, \<open>undefined\<close>, and a string that trims to nothing.\<close>

definition isBlank :: "jsvalue \<Rightarrow> bool" where
  "isBlank v = (v = JNull \<or> v = JUndefined \<or> (isString v \<and> trim (str_of v) = []))"

definition entry :: "fieldType \<Rightarrow> jsvalue \<Rightarrow> fieldDataEntry option" where
  "entry t v = Some \<lparr>entry_type = t, entry_value = v\<rparr>"

text \<open>The first \<open>switch\<close> of \<open>transformCodaValue\<close>, taken for a blank raw value.\<close>

fun emptyValue :: "fieldType \<Rightarrow> fieldDataEntry option" where
  "emptyValue FString = entry FString (JStr [])"
| "emptyValue FNumber = entry FNumber (JNum (Fin 0))"
| "emptyValue FBoolean = entry FBoolean (JBool False)"
| "emptyValue FDate = None"
| "emptyValue FImage = entry FImage (JStr [])"
| "emptyValue FFile = entry FFile (JStr [])"
| "emptyValue FFormattedText = entry FFormattedText (JStr [])"
| "emptyValue FLink = entry FLink (JStr [])"
| "emptyValue FCollectionReference = entry FCollectionReference (JStr [])"
| "emptyValue FMultiCollectionReference = entry FMultiCollectionReference (JArr [])"
| "emptyValue FEnum = entry FEnum (JStr [])"
| "emptyValue (FOther t) = entry FString (JStr [])"

text \<open>Code units: 36 \<open>$\<close>, 163 the pound sign, 8364 the euro sign, 165 the yen sign,
  44 the comma, 37 \<open>%\<close>.\<close>

definition numberValue :: "jsvalue \<Rightarrow> jsvalue" where
  "numberValue v =
     (if isNumber v then v
      else if isString v then
        (let cleanValue = trim (filter (\<lambda>c. c \<noteq> 44)
                                  (filter (\<lambda>c. c \<notin> {36, 163, 8364, 165}) (str_of v)))
         in if endsWith cleanValue [37] then
              (let parsed = Number_of_string (butlast cleanValue)
               in JNum (if parsed = NaN then Fin 0 else div100 parsed))
            else
              (let parsed = Number_of_string cleanValue
               in JNum (if parsed = NaN then Fin 0 else parsed)))
      else if isObject v then
        (if get_prop v (cu ''@type'') = JStr (cu ''MonetaryAmount'') then get_prop v (cu ''amount'')
         else if isNumber (get_prop v (cu ''value'')) then get_prop v (cu ''value'')
         else if isNumber (get_prop v (cu ''amount'')) then get_prop v (cu ''amount'')
         else JNum (Fin 0))
      else JNum (Fin 0))"

definition dateValue :: "host \<Rightarrow> jsvalue \<Rightarrow> jstr \<Rightarrow> fieldDataEntry option" where
  "dateValue h v codaColumnType =
     (let dv0 = (if isString v \<or> isNumber v then v else JStr []);
          dv = (if isObject v \<and> has_prop v (cu ''value'') then
                  (let wrapped = get_prop v (cu ''value'')
                   in if isString wrapped \<or> isNumber wrapped then wrapped else JStr [])
                else dv0)
      in case new_Date h (js_String h dv) of
           None \<Rightarrow> None
         | Some dateObj \<Rightarrow>
             if codaColumnType = cu ''date'' then
               entry FDate (JStr (show_int (getUTCFullYear dateObj) @ cu ''-''
                                  @ pad2 (getUTCMonth dateObj + 1) @ cu ''-''
                                  @ pad2 (getUTCDate dateObj)))
             else if codaColumnType = cu ''datetime'' \<or> codaColumnType = cu ''time'' then
               (if codaColumnType = cu ''time'' then
                  (let timePart = (case split_on 84 (toISOString dateObj) of
                                     a # b # rest \<Rightarrow> b
                                   | _ \<Rightarrow> cu ''undefined'')
                   in entry FDate (JStr (cu ''1970-01-01T'' @ timePart)))
                else
                  entry FDate
                    (JStr (show_int (getFullYear dateObj) @ cu ''-''
                           @ pad2 (getMonth dateObj + 1) @ cu ''-''
                           @ pad2 (getDate dateObj) @ cu ''T''
                           @ pad2 (getHours dateObj) @ cu '':''
                           @ pad2 (getMinutes dateObj) @ cu '':''
                           @ pad2 (getSeconds dateObj) @ cu ''.''
                           @ padStart 3 48 (show_int (getMilliseconds dateObj)) @ cu ''Z'')))
             else entry FDate (JStr (toISOString dateObj)))"

definition formattedTextValue :: "host \<Rightarrow> jsvalue \<Rightarrow> jstr \<Rightarrow> fieldDataEntry option" where
  "formattedTextValue h v codaColumnType =
     (if codaColumnType = cu ''canvas'' \<or> codaColumnType = cu ''richtext'' then
        (let markdown =
               (if isObject v then
                  (if isString (get_prop v (cu ''content'')) then str_of (get_prop v (cu ''content''))
                   else if isString (get_prop v (cu ''value'')) then str_of (get_prop v (cu ''value''))
                   else (let serialized = JSON_stringify h v
                         in if serialized \<noteq> cu ''{}'' then serialized else []))
                else if isString v then str_of v
                else [])
         in entry FFormattedText (JStr (markdownToSanitizedHtml h markdown)))
      else entry FFormattedText (JStr (js_String h v)))"

definition stringValue :: "host \<Rightarrow> jsvalue \<Rightarrow> jstr \<Rightarrow> bool \<Rightarrow> fieldDataEntry option" where
  "stringValue h v codaColumnType use12HourTime =
     (let formatted = (if codaColumnType = cu ''time'' then formatTimeValue h v use12HourTime
                       else None)
      in if formatted \<noteq> None \<and> formatted \<noteq> Some [] then entry FString (JStr (the formatted))
         else
           (let textValue =
                  (if isArray v \<or> (truthy v \<and> isObject v \<and> has_prop v (cu ''rawValue'')) then
                     (let rawArray =
                            (case v of
                               JArr xs \<Rightarrow> xs
                             | _ \<Rightarrow> (case get_prop v (cu ''rawValue'') of
                                        JArr ys \<Rightarrow> ys
                                      | _ \<Rightarrow> []))
                      in join (cu '', '')
                           (filter (\<lambda>t. t \<noteq> []) (map (extractMeaningfulText h) rawArray)))
                   else extractMeaningfulText h v)
            in entry FString (JStr (stripMarkdown textValue))))"

text \<open>The image branch. \<open>validImageUrl\<close> is the test
  \<open>isValidAssetUrl(url) || isLikelyImageUrl(url)\<close>.\<close>

definition validImageUrl :: "jstr \<Rightarrow> bool" where
  "validImageUrl url = (isValidAssetUrl url \<or> isLikelyImageUrl url)"

text \<open>\<open>[obj.url, obj.contentUrl, obj.thumbnailUrl].filter(typeof url === "string")\<close>, and the
  first of them that is a valid image url (the empty string when there is none).\<close>

definition imageObjectUrl :: "jsvalue \<Rightarrow> jstr" where
  "imageObjectUrl obj =
     (let urls = map str_of
                   (filter isString
                      [get_prop obj (cu ''url''), get_prop obj (cu ''contentUrl''),
                       get_prop obj (cu ''thumbnailUrl'')])
      in case List.find validImageUrl urls of Some url \<Rightarrow> url | None \<Rightarrow> [])"

text \<open>The loop over an array value: the first item that is an \<open>ImageObject\<close> with a valid
  url ends it.\<close>

fun imageFromArray :: "jsvalue list \<Rightarrow> jstr" where
  "imageFromArray [] = []"
| "imageFromArray (item # rest) =
     (let imageUrl =
            (if truthy item \<and> isObject item
                \<and> get_prop item (cu ''@type'') = JStr (cu ''ImageObject'')
             then imageObjectUrl item else [])
      in if imageUrl \<noteq> [] then imageUrl else imageFromArray rest)"

definition imageValue :: "jsvalue \<Rightarrow> fieldDataEntry option" where
  "imageValue v =
     (let imageUrl =
            (if isString v then extractUrlFromMarkdown (str_of v)
             else if isObject v then
               (let url1 =
                      (case v of
                         JArr xs \<Rightarrow> imageFromArray xs
                       | _ \<Rightarrow> if get_prop v (cu ''@type'') = JStr (cu ''ImageObject'')
                              then imageObjectUrl v else []);
                    url2 =
                      (if isString (get_prop v (cu ''url'')) then str_of (get_prop v (cu ''url''))
                       else if isString (get_prop v (cu ''link''))
                         then str_of (get_prop v (cu ''link''))
                       else if isString (get_prop v (cu ''value''))
                         then extractUrlFromMarkdown (str_of (get_prop v (cu ''value'')))
                       else if isString (get_prop v (cu ''rawValue''))
                         then extractUrlFromMarkdown (str_of (get_prop v (cu ''rawValue'')))
                       else if isString (get_prop v (cu ''imageUrl''))
                         then str_of (get_prop v (cu ''imageUrl''))
                       else if isString (get_prop v (cu ''thumbnailUrl''))
                         then str_of (get_prop v (cu ''thumbnailUrl''))
                       else url1);
                    linkedRow = get_prop v (cu ''linkedRow'')
                in if truthy linkedRow \<and> isObject linkedRow then
                     (if isString (get_prop linkedRow (cu ''url''))
                        then str_of (get_prop linkedRow (cu ''url''))
                      else if isString (get_prop linkedRow (cu ''imageUrl''))
                        then str_of (get_prop linkedRow (cu ''imageUrl''))
                      else url2)
                   else url2)
             else [])
      in if imageUrl \<noteq> [] \<and> validImageUrl imageUrl then entry FImage (JStr (trim imageUrl))
         else None)"

definition fileValue :: "jsvalue \<Rightarrow> fieldDataEntry option" where
  "fileValue v =
     (let fileUrl =
            (if isString v then extractUrlFromMarkdown (str_of v)
             else if isObject v then
               (if isString (get_prop v (cu ''url'')) then str_of (get_prop v (cu ''url''))
                else if isString (get_prop v (cu ''link'')) then str_of (get_prop v (cu ''link''))
                else [])
             else [])
      in if fileUrl \<noteq> [] \<and> isValidAssetUrl fileUrl then entry FFile (JStr (trim fileUrl))
         else None)"

definition linkValue :: "jsvalue \<Rightarrow> fieldDataEntry option" where
  "linkValue v =
     (let linkUrl =
            (if isObject v then
               (if isString (get_prop v (cu ''url'')) then str_of (get_prop v (cu ''url'')) else [])
             else if isString v then str_of v
             else [])
      in entry FLink (JStr linkUrl))"

text \<open>The enum branch. An array is an object for \<open>typeof\<close>, so the first test takes it and
  the third alternative of the program is never reached; it is kept as written.\<close>

definition enumLabel :: "host \<Rightarrow> jsvalue \<Rightarrow> jstr" where
  "enumLabel h v =
     (if isObject v then
        (if isString (get_prop v (cu ''name'')) then str_of (get_prop v (cu ''name''))
         else if isString (get_prop v (cu ''id'')) then str_of (get_prop v (cu ''id''))
         else [])
      else if isString v then str_of v
      else (case v of
              JArr (firstItem # rest) \<Rightarrow>
                if isObject firstItem \<and> has_prop firstItem (cu ''name'') then
                  (let n = get_prop firstItem (cu ''name'')
                   in js_String h (if n = JNull \<or> n = JUndefined then JStr [] else n))
                else if isString firstItem then str_of firstItem
                else []
            | _ \<Rightarrow> []))"

definition enumValueOf :: "host \<Rightarrow> jsvalue \<Rightarrow> field \<Rightarrow> fieldDataEntry option" where
  "enumValueOf h v fld =
     (let raw = enumLabel h v;
          enumValue = (if raw \<noteq> [] then trim (stripFenceEnds raw) else raw);
          resolved =
            (case field_cases fld of
               None \<Rightarrow> None
             | Some cs \<Rightarrow>
                 if enumValue = [] then None
                 else (case List.find (\<lambda>c. case_id c = enumValue) cs of
                         Some matchingCase \<Rightarrow> Some (case_id matchingCase)
                       | None \<Rightarrow>
                           (case List.find (\<lambda>c. case_name c = enumValue) cs of
                              Some matchByName \<Rightarrow> Some (case_id matchByName)
                            | None \<Rightarrow> None)))
      in case resolved of
           Some i \<Rightarrow> entry FEnum (JStr i)
         | None \<Rightarrow> if enumValue \<noteq> [] then entry FEnum (JStr enumValue) else None)"

text \<open>\<open>transformCodaValue\<close>: \<open>None\<close> is the \<open>null\<close> that omits the key.\<close>

definition transformCodaValue ::
    "host \<Rightarrow> jsvalue \<Rightarrow> field \<Rightarrow> jstr \<Rightarrow> bool \<Rightarrow> fieldDataEntry option" where
  "transformCodaValue h v fld codaColumnType use12HourTime =
     (if isBlank v then emptyValue (field_type fld)
      else (case field_type fld of
              FNumber \<Rightarrow> entry FNumber (numberValue v)
            | FBoolean \<Rightarrow> entry FBoolean (JBool (truthy v))
            | FDate \<Rightarrow> dateValue h v codaColumnType
            | FFormattedText \<Rightarrow> formattedTextValue h v codaColumnType
            | FString \<Rightarrow> stringValue h v codaColumnType use12HourTime
            | FImage \<Rightarrow> imageValue v
            | FFile \<Rightarrow> fileValue v
            | FLink \<Rightarrow> linkValue v
            | FCollectionReference \<Rightarrow>
                entry FCollectionReference
                  (JStr (case extractReferenceId v of Some i \<Rightarrow> i | None \<Rightarrow> []))
            | FMultiCollectionReference \<Rightarrow>
                entry FMultiCollectionReference (JArr (map JStr (extractReferenceIds v)))
            | FEnum \<Rightarrow> enumValueOf h v fld
            | FOther t \<Rightarrow> entry FString (JStr (js_String h v))))"

section \<open>Enum Domain Synthesizer and Batch Assembler\<close>

text \<open>\<open>extractLookupValues\<close>: the label of one item is its \<open>name\<close>, else its \<open>value\<close>.\<close>

definition lookupLabel :: "jsvalue \<Rightarrow> jstr list" where
  "lookupLabel obj =
     (if isString (get_prop obj (cu ''name'')) then [str_of (get_prop obj (cu ''name''))]
      else if isString (get_prop obj (cu ''value'')) then [str_of (get_prop obj (cu ''value''))]
      else [])"

definition extractLookupValues :: "jsvalue \<Rightarrow> jstr list" where
  "extractLookupValues v =
     (case v of
        JArr xs \<Rightarrow>
          concat (map (\<lambda>x. if isString x then [str_of x]
                            else if isObject x then lookupLabel x else []) xs)
      | JObj kvs \<Rightarrow> lookupLabel v
      | JStr s \<Rightarrow> [s]
      | _ \<Rightarrow> [])"

definition extractSlugValue :: "host \<Rightarrow> jsvalue \<Rightarrow> jstr option" where
  "extractSlugValue h v =
     (if isString v then Some (trim (stripMarkdown (str_of v)))
      else if isObject v then
        (if has_prop v (cu ''value'') \<and> isString (get_prop v (cu ''value''))
         then Some (trim (stripMarkdown (str_of (get_prop v (cu ''value'')))))
         else (let extracted = extractMeaningfulText h v
               in if extracted \<noteq> [] then Some (trim (stripMarkdown extracted)) else None))
      else None)"

text \<open>
  The first pass of \<open>buildFieldsAndItems\<close> over one column: the mapped field with the
  reference override, and the warnings it pushes. Code unit 34 is the double quote.
\<close>

definition mapColumn :: "(jstr \<rightharpoonup> jstr) \<Rightarrow> column \<Rightarrow> field option \<times> jstr list" where
  "mapColumn referenceMap col =
     (case mapCodaTypeToFramerType col of
        None \<Rightarrow> (None, [])
      | Some mappedField \<Rightarrow>
          if field_type mappedField = FString
             \<and> toLowerCase (format_type (column_format col)) = cu ''lookup''
             \<and> isArrayColumn col
          then
            (let refId = (case format_table (column_format col) of
                            None \<Rightarrow> None
                          | Some t \<Rightarrow> table_id t);
                 linkedCollectionId = (if missing refId then None else referenceMap (the refId))
             in if \<not> missing linkedCollectionId then
                  (Some ((mkField col FMultiCollectionReference)
                           \<lparr>collectionId := linkedCollectionId\<rparr>), [])
                else if \<not> missing refId then
                  (Some mappedField,
                   [cu ''No Framer collection mapping found for lookup field '' @ [34]
                    @ column_name col @ [34] @ cu '' (Coda table '' @ the refId @ cu '').''])
                else (Some mappedField, []))
          else (Some mappedField, []))"

definition mappedFields :: "(jstr \<rightharpoonup> jstr) \<Rightarrow> column list \<Rightarrow> field list" where
  "mappedFields referenceMap columns =
     List.map_filter (\<lambda>col. fst (mapColumn referenceMap col)) columns"

definition fieldWarnings :: "(jstr \<rightharpoonup> jstr) \<Rightarrow> column list \<Rightarrow> jstr list" where
  "fieldWarnings referenceMap columns =
     concat (map (\<lambda>col. snd (mapColumn referenceMap col)) columns)"

text \<open>The test of the filter that selects \<open>lookupFields\<close>: \<open>columns.find(...)\<close> finds a
  column.\<close>

definition isLookupField :: "column list \<Rightarrow> field \<Rightarrow> bool" where
  "isLookupField columns fld =
     (List.find (\<lambda>col. column_id col = field_id fld
                      \<and> toLowerCase (format_type (column_format col)) = cu ''lookup''
                      \<and> field_type fld = FEnum) columns \<noteq> None)"

text \<open>A \<open>Set\<close> of strings is the list of its elements in insertion order; \<open>add\<close> appends
  an element that is not there yet.\<close>

definition set_add :: "jstr list \<Rightarrow> jstr \<Rightarrow> jstr list" where
  "set_add xs x = (if x \<in> set xs then xs else xs @ [x])"

text \<open>The body of the inner \<open>forEach\<close> of the scan, for one row and one lookup field.\<close>

definition scanCell ::
    "normalizedRow \<Rightarrow> field \<Rightarrow> (jstr \<rightharpoonup> jstr list) \<Rightarrow> (jstr \<rightharpoonup> jstr list)" where
  "scanCell row fld sets =
     (let v = rowValue row (field_id fld)
      in if \<not> truthy v then sets
         else (case sets (field_id fld) of
                 None \<Rightarrow> sets
               | Some valueSet \<Rightarrow>
                   sets(field_id fld \<mapsto>
                     fold (\<lambda>item vs. set_add vs (trim (stripFenceEnds item)))
                          (extractLookupValues v) valueSet)))"

definition lookupValueSets ::
    "field list \<Rightarrow> normalizedRow list \<Rightarrow> (jstr \<rightharpoonup> jstr list)" where
  "lookupValueSets lookupFields rows =
     fold (\<lambda>row sets. fold (scanCell row) lookupFields sets) rows
          (fold (\<lambda>fld sets. sets(field_id fld \<mapsto> [])) lookupFields Map.empty)"

text \<open>The last \<open>forEach\<close> over the lookup fields, which assigns \<open>field.cases\<close>. The fields
  are shared with the list \<open>fields\<close>, so the assignment shows there.\<close>

definition synthesizeCases :: "(jstr \<rightharpoonup> jstr list) \<Rightarrow> field \<Rightarrow> field" where
  "synthesizeCases sets fld =
     (let uniqueValues = filter (\<lambda>v. 0 < length v)
                           (case sets (field_id fld) of Some vs \<Rightarrow> vs | None \<Rightarrow> [])
      in case field_cases fld of
           None \<Rightarrow> fld
         | Some cs \<Rightarrow>
             fld\<lparr>field_cases := Some (map (\<lambda>v. \<lparr>case_id = v, case_name = v\<rparr>) uniqueValues)\<rparr>)"

definition finalFields ::
    "(jstr \<rightharpoonup> jstr) \<Rightarrow> column list \<Rightarrow> normalizedRow list \<Rightarrow> field list" where
  "finalFields referenceMap columns rows =
     (let fs = mappedFields referenceMap columns;
          lookupFields = filter (isLookupField columns) fs
      in if 0 < length lookupFields then
           map (\<lambda>fld. if isLookupField columns fld
                       then synthesizeCases (lookupValueSets lookupFields rows) fld
                       else fld) fs
         else fs)"

text \<open>\<open>new Map(fields.map((field) => [field.id, field]))\<close> and the map of the lower-cased
  column types.\<close>

definition fieldMap :: "field list \<Rightarrow> (jstr \<rightharpoonup> field)" where
  "fieldMap fs = fold (\<lambda>f m. m(field_id f \<mapsto> f)) fs Map.empty"

definition codaColumnTypeMap :: "column list \<Rightarrow> (jstr \<rightharpoonup> jstr)" where
  "codaColumnTypeMap columns =
     fold (\<lambda>col m. m(column_id col \<mapsto> toLowerCase (format_type (column_format col))))
          columns Map.empty"

text \<open>\<open>codaColumnTypeMap.get(fieldId) || "text"\<close>.\<close>

definition codaTypeOf :: "(jstr \<rightharpoonup> jstr) \<Rightarrow> jstr \<Rightarrow> jstr" where
  "codaTypeOf tm fieldId =
     (case tm fieldId of None \<Rightarrow> cu ''text'' | Some t \<Rightarrow> if t = [] then cu ''text'' else t)"

text \<open>The loop over \<open>Object.entries(row.values)\<close> that fills \<open>fieldData\<close>, and its body.\<close>

definition fieldDataStep ::
    "host \<Rightarrow> (jstr \<rightharpoonup> field) \<Rightarrow> (jstr \<rightharpoonup> jstr) \<Rightarrow> bool \<Rightarrow> jstr \<times> jsvalue
       \<Rightarrow> (jstr \<times> fieldDataEntry) list \<Rightarrow> (jstr \<times> fieldDataEntry) list" where
  "fieldDataStep h fm tm use12HourTime kv fd =
     (case kv of
        (fieldId, v) \<Rightarrow>
          (case fm fieldId of
             None \<Rightarrow> fd
           | Some fld \<Rightarrow>
               (case transformCodaValue h v fld (codaTypeOf tm fieldId) use12HourTime of
                  None \<Rightarrow> fd
                | Some transformed \<Rightarrow> AList.update fieldId transformed fd)))"

definition buildFieldData ::
    "host \<Rightarrow> (jstr \<rightharpoonup> field) \<Rightarrow> (jstr \<rightharpoonup> jstr) \<Rightarrow> bool \<Rightarrow> (jstr \<times> jsvalue) list
       \<Rightarrow> (jstr \<times> fieldDataEntry) list" where
  "buildFieldData h fm tm use12HourTime entries =
     fold (fieldDataStep h fm tm use12HourTime) entries []"

text \<open>The state of the loop over the rows: items, warnings and the skip count.\<close>

type_synonym loopState = "item list \<times> jstr list \<times> nat"

text \<open>The item that the loop body pushes for a row with id \<open>rowId\<close> and slug
  \<open>slugValue\<close>.\<close>

definition rowItem ::
    "host \<Rightarrow> (jstr \<rightharpoonup> field) \<Rightarrow> (jstr \<rightharpoonup> jstr) \<Rightarrow> bool \<Rightarrow> jstr \<Rightarrow> jstr \<Rightarrow> normalizedRow
       \<Rightarrow> item" where
  "rowItem h fm tm use12HourTime rowId slugValue row =
     \<lparr>item_id = rowId, slug = slugValue, draft = False,
      fieldData = buildFieldData h fm tm use12HourTime (row_values row)\<rparr>"

text \<open>The body of \<open>rows.forEach((row, index) => ...)\<close>.\<close>

definition processRow ::
    "host \<Rightarrow> (jstr \<rightharpoonup> field) \<Rightarrow> (jstr \<rightharpoonup> jstr) \<Rightarrow> jstr \<Rightarrow> bool
       \<Rightarrow> nat \<times> normalizedRow \<Rightarrow> loopState \<Rightarrow> loopState" where
  "processRow h fm tm slugFieldId use12HourTime ir st =
     (case (ir, st) of
        ((index, row), (items, warns, skipped)) \<Rightarrow>
          if missing (row_id row) then
            (items,
             warns @ [cu ''Row at index '' @ show_nat index
                      @ cu '' is missing a row id and was skipped.''],
             skipped + 1)
          else
            (let rowId = the (row_id row);
                 slugValue = extractSlugValue h (rowValue row slugFieldId)
             in if missing slugValue then
                  (items,
                   warns @ [cu ''Row '' @ rowId @ cu '' is missing a slug value and was skipped.''],
                   skipped + 1)
                else
                  (items @ [rowItem h fm tm use12HourTime rowId (the slugValue) row],
                   warns, skipped)))"

definition buildFieldsAndItems ::
    "host \<Rightarrow> column list \<Rightarrow> normalizedRow list \<Rightarrow> jstr \<Rightarrow> (jstr \<rightharpoonup> jstr) \<Rightarrow> bool
       \<Rightarrow> mappingResult" where
  "buildFieldsAndItems h columns rows slugFieldId referenceMap use12HourTime =
     (let fs = finalFields referenceMap columns rows;
          st = fold (processRow h (fieldMap fs) (codaColumnTypeMap columns) slugFieldId
                       use12HourTime)
                    (List.enumerate 0 rows)
                    ([], fieldWarnings referenceMap columns, 0)
      in case st of
           (items, warns, skipped) \<Rightarrow>
             \<lparr>result_fields = fs, result_items = items, warnings = warns,
              skippedCount = skipped\<rparr>)"

text \<open>The rows that pass both guards of the loop body: the row id and the slug value are
  there and not empty.\<close>

definition keptRow :: "host \<Rightarrow> jstr \<Rightarrow> normalizedRow \<Rightarrow> bool" where
  "keptRow h slugFieldId row =
     (\<not> missing (row_id row) \<and> \<not> missing (extractSlugValue h (rowValue row slugFieldId)))"

text \<open>The warning that the loop body pushes for a row it skips: the first guard names the
  index of the row, the second its id.\<close>

definition skipWarning :: "nat \<Rightarrow> normalizedRow \<Rightarrow> jstr" where
  "skipWarning index row =
     (if missing (row_id row)
      then cu ''Row at index '' @ show_nat index @ cu '' is missing a row id and was skipped.''
      else cu ''Row '' @ the (row_id row) @ cu '' is missing a slug value and was skipped.'')"


text \<open>
  The labels that the scan of the Enum Domain Synthesizer adds for one cell, in the order
  it adds them: the extracted strings, each without a fence at its start and end and then
  trimmed; and the labels of all rows for one field id, in row order.
\<close>

definition cellLabels :: "jsvalue \<Rightarrow> jstr list" where
  "cellLabels v =
     (if truthy v then map (\<lambda>item. trim (stripFenceEnds item)) (extractLookupValues v)
      else [])"

definition scannedLabels :: "normalizedRow list \<Rightarrow> jstr \<Rightarrow> jstr list" where
  "scannedLabels rows k = concat (map (\<lambda>row. cellLabels (rowValue row k)) rows)"

section \<open>Field Schema Merger\<close>

text \<open>
  \<open>new Map(existingFields.map((field) => [field.id, field]))\<close>: entries are set in list
  order, so a later field with the same id replaces an earlier one.
\<close>

definition existingFieldMap :: "field list \<Rightarrow> (jstr \<rightharpoonup> field)" where
  "existingFieldMap existingFields =
     fold (\<lambda>f m. m(field_id f \<mapsto> f)) existingFields Map.empty"

definition mergeField :: "(jstr \<rightharpoonup> field) \<Rightarrow> field \<Rightarrow> field" where
  "mergeField m sourceField =
     (case m (field_id sourceField) of
        Some existingField \<Rightarrow> sourceField\<lparr>field_name := field_name existingField\<rparr>
      | None \<Rightarrow> sourceField)"

definition mergeFieldsWithExistingFields :: "field list \<Rightarrow> field list \<Rightarrow> field list" where
  "mergeFieldsWithExistingFields sourceFields existingFields =
     map (mergeField (existingFieldMap existingFields)) sourceFields"


section \<open>Properties of the Field Schema Merger\<close>

lemma existingFieldMap_snoc:
  "existingFieldMap (es @ [e]) = (existingFieldMap es)(field_id e \<mapsto> e)"
  by (simp add: existingFieldMap_def)

lemma existingFieldMap_Some:
  "existingFieldMap es k = Some e \<Longrightarrow> e \<in> set es \<and> field_id e = k"
proof (induction es rule: rev_induct)
  case Nil
  then show ?case by (simp add: existingFieldMap_def)
next
  case (snoc x xs)
  then show ?case
    by (cases "field_id x = k") (auto simp: existingFieldMap_snoc)
qed

lemma existingFieldMap_None:
  "(existingFieldMap es k = None) = (\<forall>e \<in> set es. field_id e \<noteq> k)"
proof (induction es rule: rev_induct)
  case Nil
  then show ?case by (simp add: existingFieldMap_def)
next
  case (snoc x xs)
  then show ?case
    by (cases "field_id x = k") (auto simp: existingFieldMap_snoc)
qed

lemma existingFieldMap_last:
  "existingFieldMap es k =
     (case filter (\<lambda>e. field_id e = k) es of [] \<Rightarrow> None | m # ms \<Rightarrow> Some (last (m # ms)))"
proof (induction es rule: rev_induct)
  case Nil
  then show ?case by (simp add: existingFieldMap_def)
next
  case (snoc x xs)
  then show ?case
    by (cases "field_id x = k") (auto simp: existingFieldMap_snoc split: list.splits)
qed

lemma mergeField_id [simp]: "field_id (mergeField m s) = field_id s"
  by (simp add: mergeField_def split: option.splits)

text \<open>
  Claim C8. A local field that has a remote field with the same id keeps its type, cases and
  collectionId (and every other property) and only takes the name of the remote field that
  the id map holds for that id; a local field with no remote field of the same id is returned
  unchanged.
\<close>

theorem merge_keeps_local_takes_remote_name:
  assumes "i < length sourceFields"
  shows "field_type (mergeFieldsWithExistingFields sourceFields existingFields ! i)
           = field_type (sourceFields ! i)
       \<and> field_cases (mergeFieldsWithExistingFields sourceFields existingFields ! i)
           = field_cases (sourceFields ! i)
       \<and> collectionId (mergeFieldsWithExistingFields sourceFields existingFields ! i)
           = collectionId (sourceFields ! i)
       \<and> ((\<exists>e \<in> set existingFields. field_id e = field_id (sourceFields ! i)) \<longrightarrow>
            (\<exists>e \<in> set existingFields. field_id e = field_id (sourceFields ! i)
               \<and> existingFieldMap existingFields (field_id (sourceFields ! i)) = Some e
               \<and> mergeFieldsWithExistingFields sourceFields existingFields ! i
                   = (sourceFields ! i)\<lparr>field_name := field_name e\<rparr>))
       \<and> ((\<forall>e \<in> set existingFields. field_id e \<noteq> field_id (sourceFields ! i)) \<longrightarrow>
            mergeFieldsWithExistingFields sourceFields existingFields ! i = sourceFields ! i)"
proof -
  let ?s = "sourceFields ! i"
  let ?m = "existingFieldMap existingFields"
  have out: "mergeFieldsWithExistingFields sourceFields existingFields ! i = mergeField ?m ?s"
    using assms by (simp add: mergeFieldsWithExistingFields_def)
  show ?thesis
  proof (cases "?m (field_id ?s)")
    case None
    then have "\<forall>e \<in> set existingFields. field_id e \<noteq> field_id ?s"
      by (simp add: existingFieldMap_None)
    with None out show ?thesis by (auto simp: mergeField_def)
  next
    case (Some e)
    then have "e \<in> set existingFields \<and> field_id e = field_id ?s"
      by (rule existingFieldMap_Some)
    with Some out show ?thesis by (auto simp: mergeField_def)
  qed
qed

theorem merge_keeps_local_takes_remote_name_witness:
  "mergeFieldsWithExistingFields
     [\<lparr>field_id = cu ''c1'', field_name = cu ''Colour'', field_type = FEnum,
        field_cases = Some [\<lparr>case_id = cu ''Red'', case_name = cu ''Red''\<rparr>],
        collectionId = None, allowedFileTypes = None\<rparr>,
      \<lparr>field_id = cu ''c2'', field_name = cu ''Title'', field_type = FString,
        field_cases = None, collectionId = None, allowedFileTypes = None\<rparr>]
     [\<lparr>field_id = cu ''c1'', field_name = cu ''Published colour'', field_type = FString,
        field_cases = None, collectionId = None, allowedFileTypes = None\<rparr>] ! 0
   = \<lparr>field_id = cu ''c1'', field_name = cu ''Published colour'', field_type = FEnum,
        field_cases = Some [\<lparr>case_id = cu ''Red'', case_name = cu ''Red''\<rparr>],
        collectionId = None, allowedFileTypes = None\<rparr>"
  using merge_keeps_local_takes_remote_name
    [of 0 "[\<lparr>field_id = cu ''c1'', field_name = cu ''Colour'', field_type = FEnum,
        field_cases = Some [\<lparr>case_id = cu ''Red'', case_name = cu ''Red''\<rparr>],
        collectionId = None, allowedFileTypes = None\<rparr>,
      \<lparr>field_id = cu ''c2'', field_name = cu ''Title'', field_type = FString,
        field_cases = None, collectionId = None, allowedFileTypes = None\<rparr>]"
      "[\<lparr>field_id = cu ''c1'', field_name = cu ''Published colour'', field_type = FString,
        field_cases = None, collectionId = None, allowedFileTypes = None\<rparr>]"]
  by simp

text \<open>
  Claim C10. The merged list has exactly one field per source field, in the same order and
  with the same ids; a remote field whose id matches no source field contributes nothing: its
  id is the id of no output field.
\<close>

theorem merge_one_field_per_source_field:
  "length (mergeFieldsWithExistingFields sourceFields existingFields) = length sourceFields
   \<and> map field_id (mergeFieldsWithExistingFields sourceFields existingFields)
       = map field_id sourceFields
   \<and> (\<forall>e \<in> set existingFields.
         field_id e \<notin> field_id ` set sourceFields \<longrightarrow>
         field_id e \<notin> field_id ` set (mergeFieldsWithExistingFields sourceFields existingFields))"
proof -
  have ids: "map field_id (mergeFieldsWithExistingFields sourceFields existingFields)
               = map field_id sourceFields"
    by (simp add: mergeFieldsWithExistingFields_def)
  have "field_id ` set (mergeFieldsWithExistingFields sourceFields existingFields)
          = field_id ` set sourceFields"
    using arg_cong [OF ids, of set] by simp
  with ids show ?thesis
    by (simp add: mergeFieldsWithExistingFields_def)
qed

theorem merge_one_field_per_source_field_witness:
  "map field_id (mergeFieldsWithExistingFields
     [\<lparr>field_id = cu ''c1'', field_name = cu ''A'', field_type = FString,
        field_cases = None, collectionId = None, allowedFileTypes = None\<rparr>,
      \<lparr>field_id = cu ''c2'', field_name = cu ''B'', field_type = FNumber,
        field_cases = None, collectionId = None, allowedFileTypes = None\<rparr>]
     [\<lparr>field_id = cu ''c9'', field_name = cu ''Remote only'', field_type = FString,
        field_cases = None, collectionId = None, allowedFileTypes = None\<rparr>,
      \<lparr>field_id = cu ''c2'', field_name = cu ''Remote B'', field_type = FNumber,
        field_cases = None, collectionId = None, allowedFileTypes = None\<rparr>])
   = [cu ''c1'', cu ''c2'']"
  using merge_one_field_per_source_field
    [of "[\<lparr>field_id = cu ''c1'', field_name = cu ''A'', field_type = FString,
        field_cases = None, collectionId = None, allowedFileTypes = None\<rparr>,
      \<lparr>field_id = cu ''c2'', field_name = cu ''B'', field_type = FNumber,
        field_cases = None, collectionId = None, allowedFileTypes = None\<rparr>]"
       "[\<lparr>field_id = cu ''c9'', field_name = cu ''Remote only'', field_type = FString,
        field_cases = None, collectionId = None, allowedFileTypes = None\<rparr>,
      \<lparr>field_id = cu ''c2'', field_name = cu ''Remote B'', field_type = FNumber,
        field_cases = None, collectionId = None, allowedFileTypes = None\<rparr>]"]
  by simp




section \<open>Properties of the Type Mapper\<close>

lemma str_includes_iff: "str_includes s p = (\<exists>a b. s = a @ p @ b)"
proof (induction s)
  case Nil
  then show ?case by auto
next
  case (Cons c cs)
  have sw: "startsWith (c # cs) p = (\<exists>b. c # cs = p @ b)"
    by (metis append_eq_conv_conj startsWith_def append_take_drop_id)
  show ?case
  proof
    assume "str_includes (c # cs) p"
    then consider "startsWith (c # cs) p" | "str_includes cs p" by auto
    then show "\<exists>a b. c # cs = a @ p @ b"
    proof cases
      case 1
      with sw obtain b where "c # cs = p @ b" by blast
      then have "c # cs = [] @ p @ b" by simp
      then show ?thesis by blast
    next
      case 2
      with Cons.IH obtain a b where "cs = a @ p @ b" by blast
      then have "c # cs = (c # a) @ p @ b" by simp
      then show ?thesis by blast
    qed
  next
    assume "\<exists>a b. c # cs = a @ p @ b"
    then obtain a b where ab: "c # cs = a @ p @ b" by blast
    show "str_includes (c # cs) p"
    proof (cases a)
      case Nil
      with ab have "c # cs = p @ b" by simp
      with sw have "startsWith (c # cs) p" by blast
      then show ?thesis by simp
    next
      case (Cons x xs)
      with ab have "cs = xs @ p @ b" by simp
      with Cons.IH have "str_includes cs p" by blast
      then show ?thesis by simp
    qed
  qed
qed

text \<open>
  Claim C7. A column whose declared type is not \<open>button\<close> (in lower case, as the program
  compares it) and whose name or id contains \<open>image\<close> or \<open>graphic\<close> after lower-casing
  is mapped to a field of type image with the column's id and name, whatever its declared
  type. An instance is the column named \<open>Image\<close> of declared type \<open>text\<close>.
\<close>

theorem image_heuristic:
  assumes "toLowerCase (format_type (column_format col)) \<noteq> cu ''button''"
    and "str_includes (toLowerCase (column_name col)) (cu ''image'')
       \<or> str_includes (toLowerCase (column_name col)) (cu ''graphic'')
       \<or> str_includes (toLowerCase (column_id col)) (cu ''image'')
       \<or> str_includes (toLowerCase (column_id col)) (cu ''graphic'')"
  shows "mapCodaTypeToFramerType col =
           Some \<lparr>field_id = column_id col, field_name = column_name col, field_type = FImage,
                 field_cases = None, collectionId = None, allowedFileTypes = None\<rparr>"
  using assms by (auto simp: mapCodaTypeToFramerType_def Let_def mkField_def)

theorem image_heuristic_witness:
  "mapCodaTypeToFramerType
     \<lparr>column_id = cu ''c1'', column_name = cu ''Image'',
      column_format = \<lparr>format_type = cu ''text'', format_isArray = None,
                        format_table = None, format_options = None\<rparr>\<rparr>
   = Some \<lparr>field_id = cu ''c1'', field_name = cu ''Image'', field_type = FImage,
           field_cases = None, collectionId = None, allowedFileTypes = None\<rparr>"
  using image_heuristic
    [of "\<lparr>column_id = cu ''c1'', column_name = cu ''Image'',
      column_format = \<lparr>format_type = cu ''text'', format_isArray = None,
                        format_table = None, format_options = None\<rparr>\<rparr>"]
  by (simp add: toLowerCase_def lower_cu_def cu_def startsWith_def)

section \<open>Properties of the reference override\<close>

lemma buildReferenceMap_snoc:
  "buildReferenceMap (es @ [e]) =
     (if missing (codaTableId e) \<or> missing (framerCollectionId e) then buildReferenceMap es
      else (buildReferenceMap es)(the (codaTableId e) \<mapsto> the (framerCollectionId e)))"
  by (simp add: buildReferenceMap_def)

lemma buildReferenceMap_nonempty:
  "buildReferenceMap es k = Some v \<Longrightarrow> k \<noteq> [] \<and> v \<noteq> []"
proof (induction es rule: rev_induct)
  case Nil
  then show ?case by (simp add: buildReferenceMap_def)
next
  case (snoc e es)
  then show ?case
    by (auto simp: buildReferenceMap_snoc missing_def split: if_splits option.splits)
qed

lemma fold_processRow_warnings:
  "fold (processRow h fm tm sl u) irs (items, ws, n) = (items', ws', n')
     \<Longrightarrow> set ws \<subseteq> set ws'"
proof (induction irs arbitrary: items ws n)
  case Nil
  then show ?case by simp
next
  case (Cons ir irs)
  obtain i1 w1 n1 where st: "processRow h fm tm sl u ir (items, ws, n) = (i1, w1, n1)"
    by (cases "processRow h fm tm sl u ir (items, ws, n)") auto
  have "set ws \<subseteq> set w1"
    using st by (cases ir) (auto simp: processRow_def Let_def split: if_splits)
  moreover have "set w1 \<subseteq> set ws'"
    using Cons.IH [of i1 w1 n1] Cons.prems st by simp
  ultimately show ?case by blast
qed

lemma fieldWarnings_in_result:
  "set (fieldWarnings rm columns) \<subseteq> set (warnings (buildFieldsAndItems h columns rows sl rm u))"
proof -
  let ?fs = "finalFields rm columns rows"
  obtain items ws n where
    st: "fold (processRow h (fieldMap ?fs) (codaColumnTypeMap columns) sl u)
           (List.enumerate 0 rows) ([], fieldWarnings rm columns, 0) = (items, ws, n)"
    by (metis prod_cases3)
  then have "warnings (buildFieldsAndItems h columns rows sl rm u) = ws"
    by (simp add: buildFieldsAndItems_def Let_def)
  with fold_processRow_warnings [OF st] show ?thesis by simp
qed

lemma synthesizeCases_non_enum:
  "field_type f \<noteq> FEnum \<Longrightarrow> isLookupField columns f = False"
  by (induction columns) (auto simp: isLookupField_def)

lemma finalFields_keeps_non_enum:
  assumes "f \<in> set (mappedFields rm columns)" and "field_type f \<noteq> FEnum"
  shows "f \<in> set (finalFields rm columns rows)"
proof -
  let ?fs = "mappedFields rm columns"
  let ?g = "\<lambda>fld. if isLookupField columns fld
                then synthesizeCases (lookupValueSets (filter (isLookupField columns) ?fs) rows) fld
                else fld"
  have "?g f = f" using assms(2) by (simp add: synthesizeCases_non_enum)
  then have "f \<in> set (map ?g ?fs)" using assms(1) by force
  then show ?thesis using assms(1) by (auto simp: finalFields_def Let_def)
qed

lemma mappedFields_member:
  "col \<in> set columns \<Longrightarrow> fst (mapColumn rm col) = Some f \<Longrightarrow> f \<in> set (mappedFields rm columns)"
  by (induction columns) (auto simp: mappedFields_def List.map_filter_simps split: option.splits)

lemma fieldWarnings_member:
  "col \<in> set columns \<Longrightarrow> w \<in> set (snd (mapColumn rm col)) \<Longrightarrow> w \<in> set (fieldWarnings rm columns)"
  by (auto simp: fieldWarnings_def)

text \<open>
  Claim C6. Take a lookup column with \<open>isArray = true\<close> that the Type Mapper maps to a
  string field, with table id \<open>tableId\<close>, and a Reference Map built by
  \<open>buildReferenceMap\<close>. If the table id resolves to \<open>cid\<close>, the column's field is a
  \<open>multiCollectionReference\<close> with \<open>collectionId = cid\<close> and no warning is pushed for it. If
  the table id is present (a string that is not empty, as the program's test reads it) and
  does not resolve, the field stays the string field and exactly the warning of the claim
  is pushed; the field and the warning are in the result of \<open>buildFieldsAndItems\<close>.
\<close>

theorem lookup_array_reference_override:
  assumes col: "col \<in> set columns"
    and lookup: "toLowerCase (format_type (column_format col)) = cu ''lookup''"
    and array: "format_isArray (column_format col) = Some True"
    and string: "mapCodaTypeToFramerType col = Some (mkField col FString)"
    and table: "format_table (column_format col) = Some \<lparr>table_id = Some tableId\<rparr>"
  shows "(buildReferenceMap entries tableId = Some cid \<longrightarrow>
            mapColumn (buildReferenceMap entries) col
              = (Some \<lparr>field_id = column_id col, field_name = column_name col,
                       field_type = FMultiCollectionReference, field_cases = None,
                       collectionId = Some cid, allowedFileTypes = None\<rparr>, [])
          \<and> \<lparr>field_id = column_id col, field_name = column_name col,
               field_type = FMultiCollectionReference, field_cases = None,
               collectionId = Some cid, allowedFileTypes = None\<rparr>
             \<in> set (result_fields
                      (buildFieldsAndItems h columns rows slugFieldId
                         (buildReferenceMap entries) use12HourTime)))
       \<and> (tableId \<noteq> [] \<and> buildReferenceMap entries tableId = None \<longrightarrow>
            mapColumn (buildReferenceMap entries) col
              = (Some \<lparr>field_id = column_id col, field_name = column_name col,
                       field_type = FString, field_cases = None,
                       collectionId = None, allowedFileTypes = None\<rparr>,
                 [cu ''No Framer collection mapping found for lookup field '' @ [34]
                  @ column_name col @ [34] @ cu '' (Coda table '' @ tableId @ cu '').''])
          \<and> \<lparr>field_id = column_id col, field_name = column_name col,
               field_type = FString, field_cases = None,
               collectionId = None, allowedFileTypes = None\<rparr>
             \<in> set (result_fields
                      (buildFieldsAndItems h columns rows slugFieldId
                         (buildReferenceMap entries) use12HourTime))
          \<and> cu ''No Framer collection mapping found for lookup field '' @ [34]
               @ column_name col @ [34] @ cu '' (Coda table '' @ tableId @ cu '').''
             \<in> set (warnings
                      (buildFieldsAndItems h columns rows slugFieldId
                         (buildReferenceMap entries) use12HourTime)))"
proof (intro conjI impI)
  let ?rm = "buildReferenceMap entries"
  let ?R = "buildFieldsAndItems h columns rows slugFieldId ?rm use12HourTime"
  have fields: "result_fields ?R = finalFields ?rm columns rows"
    by (simp add: buildFieldsAndItems_def Let_def split: prod.splits)
  {
    assume res: "?rm tableId = Some cid"
    then have ne: "tableId \<noteq> [] \<and> cid \<noteq> []" by (rule buildReferenceMap_nonempty)
    let ?f = "\<lparr>field_id = column_id col, field_name = column_name col,
                 field_type = FMultiCollectionReference, field_cases = None,
                 collectionId = Some cid, allowedFileTypes = None\<rparr>"
    show mc: "mapColumn ?rm col = (Some ?f, [])"
      using lookup array string table res ne
      by (simp add: mapColumn_def mkField_def isArrayColumn_def missing_def Let_def)
    have "?f \<in> set (mappedFields ?rm columns)"
      using mappedFields_member [OF col, of ?rm ?f] mc by simp
    then show "?f \<in> set (result_fields ?R)"
      unfolding fields by (rule finalFields_keeps_non_enum) simp
  }
  {
    assume "tableId \<noteq> [] \<and> ?rm tableId = None"
    then have ne: "tableId \<noteq> []" and unres: "?rm tableId = None" by simp_all
    let ?f = "\<lparr>field_id = column_id col, field_name = column_name col,
                 field_type = FString, field_cases = None,
                 collectionId = None, allowedFileTypes = None\<rparr>"
    let ?w = "cu ''No Framer collection mapping found for lookup field '' @ [34]
               @ column_name col @ [34] @ cu '' (Coda table '' @ tableId @ cu '').''"
    show mc: "mapColumn ?rm col = (Some ?f, [?w])"
      using lookup array string table unres ne
      by (simp add: mapColumn_def mkField_def isArrayColumn_def missing_def Let_def)
    have "?f \<in> set (mappedFields ?rm columns)"
      using mappedFields_member [OF col, of ?rm ?f] mc by simp
    then show "?f \<in> set (result_fields ?R)"
      unfolding fields by (rule finalFields_keeps_non_enum) simp
    have "?w \<in> set (fieldWarnings ?rm columns)"
      using fieldWarnings_member [OF col, of ?w ?rm] mc by simp
    then show "?w \<in> set (warnings ?R)"
      using fieldWarnings_in_result by blast
  }
qed

theorem lookup_array_reference_override_witness:
  "mapColumn
     (buildReferenceMap [\<lparr>codaTableId = Some (cu ''t1''), framerCollectionId = Some (cu ''coll7'')\<rparr>])
     \<lparr>column_id = cu ''c1'', column_name = cu ''Authors'',
      column_format = \<lparr>format_type = cu ''lookup'', format_isArray = Some True,
                        format_table = Some \<lparr>table_id = Some (cu ''t1'')\<rparr>,
                        format_options = None\<rparr>\<rparr>
   = (Some \<lparr>field_id = cu ''c1'', field_name = cu ''Authors'',
            field_type = FMultiCollectionReference, field_cases = None,
            collectionId = Some (cu ''coll7''), allowedFileTypes = None\<rparr>, [])
   \<and> mapColumn
     (buildReferenceMap [\<lparr>codaTableId = Some (cu ''t1''), framerCollectionId = Some (cu ''coll7'')\<rparr>])
     \<lparr>column_id = cu ''c2'', column_name = cu ''Tags'',
      column_format = \<lparr>format_type = cu ''Lookup'', format_isArray = Some True,
                        format_table = Some \<lparr>table_id = Some (cu ''t2'')\<rparr>,
                        format_options = None\<rparr>\<rparr>
   = (Some \<lparr>field_id = cu ''c2'', field_name = cu ''Tags'',
            field_type = FString, field_cases = None,
            collectionId = None, allowedFileTypes = None\<rparr>,
      [cu ''No Framer collection mapping found for lookup field '' @ [34] @ cu ''Tags'' @ [34]
       @ cu '' (Coda table t2).''])"
proof -
  let ?ents = "[\<lparr>codaTableId = Some (cu ''t1''), framerCollectionId = Some (cu ''coll7'')\<rparr>]"
  let ?c1 = "\<lparr>column_id = cu ''c1'', column_name = cu ''Authors'',
      column_format = \<lparr>format_type = cu ''lookup'', format_isArray = Some True,
                        format_table = Some \<lparr>table_id = Some (cu ''t1'')\<rparr>,
                        format_options = None\<rparr>\<rparr>"
  let ?c2 = "\<lparr>column_id = cu ''c2'', column_name = cu ''Tags'',
      column_format = \<lparr>format_type = cu ''Lookup'', format_isArray = Some True,
                        format_table = Some \<lparr>table_id = Some (cu ''t2'')\<rparr>,
                        format_options = None\<rparr>\<rparr>"
  let ?h = "\<lparr>Number_toString = (\<lambda>n. []), new_Date = (\<lambda>s. None), JSON_stringify = (\<lambda>v. []),
             marked_parse = (\<lambda>s. s), sanitizeHtml = (\<lambda>s. s)\<rparr>"
  have m1: "mapCodaTypeToFramerType ?c1 = Some (mkField ?c1 FString)"
    by (simp add: mapCodaTypeToFramerType_def toLowerCase_def lower_cu_def cu_def startsWith_def
          isArrayColumn_def enumChoices_def)
  have m2: "mapCodaTypeToFramerType ?c2 = Some (mkField ?c2 FString)"
    by (simp add: mapCodaTypeToFramerType_def toLowerCase_def lower_cu_def cu_def startsWith_def
          isArrayColumn_def enumChoices_def)
  have r1: "buildReferenceMap ?ents (cu ''t1'') = Some (cu ''coll7'')"
    by (simp add: buildReferenceMap_def missing_def cu_def)
  have r2: "cu ''t2'' \<noteq> [] \<and> buildReferenceMap ?ents (cu ''t2'') = None"
    by (simp add: buildReferenceMap_def missing_def cu_def)
  have l1: "toLowerCase (format_type (column_format ?c1)) = cu ''lookup''"
    by (simp add: toLowerCase_def lower_cu_def cu_def)
  have l2: "toLowerCase (format_type (column_format ?c2)) = cu ''lookup''"
    by (simp add: toLowerCase_def lower_cu_def cu_def)
  have a: "mapColumn (buildReferenceMap ?ents) ?c1
      = (Some \<lparr>field_id = cu ''c1'', field_name = cu ''Authors'',
            field_type = FMultiCollectionReference, field_cases = None,
            collectionId = Some (cu ''coll7''), allowedFileTypes = None\<rparr>, [])"
    using lookup_array_reference_override
      [of ?c1 "[?c1, ?c2]" "cu ''t1''" ?ents "cu ''coll7''" ?h "[]" "cu ''c1''" False, OF _ l1 _ m1]
      r1 by simp
  have b: "mapColumn (buildReferenceMap ?ents) ?c2
      = (Some \<lparr>field_id = cu ''c2'', field_name = cu ''Tags'',
            field_type = FString, field_cases = None,
            collectionId = None, allowedFileTypes = None\<rparr>,
      [cu ''No Framer collection mapping found for lookup field '' @ [34] @ cu ''Tags'' @ [34]
       @ cu '' (Coda table t2).''])"
    using lookup_array_reference_override
      [of ?c2 "[?c1, ?c2]" "cu ''t2''" ?ents "cu ''coll7''" ?h "[]" "cu ''c1''" False, OF _ l2 _ m2]
      r2 by (simp add: cu_def)
  from a b show ?thesis by blast
qed

section \<open>Properties of trimming\<close>





section \<open>Properties of the Batch Assembler\<close>





lemma trim_Nil [simp]: "trim [] = []"
  by (simp add: trim_def)


lemma processRow_kept:
  "keptRow h sl row \<Longrightarrow>
     processRow h fm tm sl u (index, row) (items, ws, n)
       = (items @ [rowItem h fm tm u (the (row_id row))
                     (the (extractSlugValue h (rowValue row sl))) row], ws, n)"
  by (simp add: processRow_def keptRow_def Let_def)

lemma processRow_skipped:
  "\<not> keptRow h sl row \<Longrightarrow>
     processRow h fm tm sl u (index, row) (items, ws, n)
       = (items, ws @ [skipWarning index row], n + 1)"
  by (auto simp: processRow_def keptRow_def Let_def skipWarning_def)

lemma fold_processRow:
  "fold (processRow h fm tm sl u) (List.enumerate i rows) (items, ws, n)
     = (items @ map (\<lambda>row. rowItem h fm tm u (the (row_id row))
                              (the (extractSlugValue h (rowValue row sl))) row)
                  (filter (keptRow h sl) rows),
        ws @ map (\<lambda>(index, row). skipWarning index row)
               (filter (\<lambda>(index, row). \<not> keptRow h sl row) (List.enumerate i rows)),
        n + length (filter (\<lambda>row. \<not> keptRow h sl row) rows))"
proof (induction rows arbitrary: i items ws n)
  case Nil
  then show ?case by simp
next
  case (Cons r rs)
  show ?case
  proof (cases "keptRow h sl r")
    case True
    then show ?thesis
      by (simp add: processRow_kept Cons.IH)
  next
    case False
    then show ?thesis
      by (simp add: processRow_skipped Cons.IH)
  qed
qed

lemma buildFieldsAndItems_rows:
  "result_items (buildFieldsAndItems h columns rows sl rm u)
       = map (\<lambda>row. rowItem h (fieldMap (finalFields rm columns rows))
                       (codaColumnTypeMap columns) u (the (row_id row))
                       (the (extractSlugValue h (rowValue row sl))) row)
             (filter (keptRow h sl) rows)
     \<and> skippedCount (buildFieldsAndItems h columns rows sl rm u)
       = length (filter (\<lambda>row. \<not> keptRow h sl row) rows)
     \<and> warnings (buildFieldsAndItems h columns rows sl rm u)
       = fieldWarnings rm columns
         @ map (\<lambda>(index, row). skipWarning index row)
             (filter (\<lambda>(index, row). \<not> keptRow h sl row) (List.enumerate 0 rows))
     \<and> result_fields (buildFieldsAndItems h columns rows sl rm u) = finalFields rm columns rows"
  using fold_processRow [of h "fieldMap (finalFields rm columns rows)" "codaColumnTypeMap columns"
         sl u 0 rows "[]" "fieldWarnings rm columns" 0]
  by (simp add: buildFieldsAndItems_def Let_def)


lemmas str_eval = cu_def is_ws_def trim_def startsWith_def endsWith_def fence_def
  toLowerCase_def lower_cu_def is_digit_def missing_def


section \<open>Properties of the field data\<close>

lemma fieldMap_eq: "fieldMap = existingFieldMap"
  by (rule ext) (simp add: fieldMap_def existingFieldMap_def)

lemma fieldMap_Some: "fieldMap fs k = Some f \<Longrightarrow> f \<in> set fs \<and> field_id f = k"
  unfolding fieldMap_eq by (rule existingFieldMap_Some)

lemma set_update_cases:
  "(k', e') \<in> set (AList.update k e al) \<Longrightarrow> (k', e') = (k, e) \<or> (k', e') \<in> set al"
  by (induction al) (auto split: if_splits)

lemma mapCodaTypeToFramerType_known:
  "mapCodaTypeToFramerType col = Some f \<Longrightarrow> field_type f \<noteq> FOther t"
  unfolding mapCodaTypeToFramerType_def Let_def mkField_def
  by (simp split: if_splits) auto

lemma mapColumn_known:
  "fst (mapColumn rm col) = Some f \<Longrightarrow> field_type f \<noteq> FOther t"
  using mapCodaTypeToFramerType_known [of col _ t]
  by (auto simp: mapColumn_def Let_def mkField_def split: option.splits if_splits)

lemma mappedFields_set:
  "(f \<in> set (mappedFields rm columns))
     = (\<exists>col \<in> set columns. fst (mapColumn rm col) = Some f)"
  by (force simp: mappedFields_def List.map_filter_def)

lemma mappedFields_known:
  "f \<in> set (mappedFields rm columns) \<Longrightarrow> field_type f \<noteq> FOther t"
  using mapColumn_known [of rm _ f t]
  by (auto simp: mappedFields_set)

lemma synthesizeCases_type [simp]: "field_type (synthesizeCases sets f) = field_type f"
  by (simp add: synthesizeCases_def Let_def split: option.splits)

lemma synthesizeCases_id [simp]: "field_id (synthesizeCases sets f) = field_id f"
  by (simp add: synthesizeCases_def Let_def split: option.splits)

lemma finalFields_known:
  "f \<in> set (finalFields rm columns rows) \<Longrightarrow> field_type f \<noteq> FOther t"
  using mappedFields_known [of _ rm columns t]
  by (auto simp: finalFields_def Let_def split: if_splits)

lemma dateValue_tag: "dateValue h v ct = Some e \<Longrightarrow> entry_type e = FDate"
  by (auto simp: dateValue_def entry_def Let_def split: option.splits if_splits)

lemma formattedTextValue_tag:
  "formattedTextValue h v ct = Some e \<Longrightarrow> entry_type e = FFormattedText"
  by (auto simp: formattedTextValue_def entry_def Let_def split: if_splits)

lemma stringValue_tag: "stringValue h v ct u = Some e \<Longrightarrow> entry_type e = FString"
  by (auto simp: stringValue_def entry_def Let_def split: if_splits)

lemma imageValue_tag: "imageValue v = Some e \<Longrightarrow> entry_type e = FImage"
  unfolding imageValue_def Let_def entry_def
  by (simp split: if_splits) auto

lemma fileValue_tag: "fileValue v = Some e \<Longrightarrow> entry_type e = FFile"
  unfolding fileValue_def Let_def entry_def
  by (simp split: if_splits) auto

lemma linkValue_tag: "linkValue v = Some e \<Longrightarrow> entry_type e = FLink"
  by (auto simp: linkValue_def entry_def Let_def)

lemma enumValueOf_tag: "enumValueOf h v fld = Some e \<Longrightarrow> entry_type e = FEnum"
  by (auto simp: enumValueOf_def entry_def Let_def split: option.splits if_splits)

lemma emptyValue_tag:
  "emptyValue t = Some e \<Longrightarrow> (\<forall>x. t \<noteq> FOther x) \<Longrightarrow> entry_type e = t"
  by (cases t) (auto simp: entry_def)

lemma transformCodaValue_tag:
  assumes "transformCodaValue h v fld ct u = Some e" and "\<forall>x. field_type fld \<noteq> FOther x"
  shows "entry_type e = field_type fld"
proof (cases "isBlank v")
  case True
  with assms show ?thesis by (simp add: transformCodaValue_def emptyValue_tag)
next
  case False
  with assms show ?thesis
    by (cases "field_type fld")
       (auto simp: transformCodaValue_def entry_def
             dest: dateValue_tag formattedTextValue_tag stringValue_tag imageValue_tag
                   fileValue_tag linkValue_tag enumValueOf_tag)
qed

lemma fieldDataStep_cases:
  "fieldDataStep h fm tm u (k0, v0) fd = fd
   \<or> (\<exists>fld e. fm k0 = Some fld
         \<and> transformCodaValue h v0 fld (codaTypeOf tm k0) u = Some e
         \<and> fieldDataStep h fm tm u (k0, v0) fd = AList.update k0 e fd)"
  by (simp add: fieldDataStep_def split: option.splits)



lemma fold_fieldDataStep_entries:
  "(k, e) \<in> set (fold (fieldDataStep h fm tm u) es fd) \<Longrightarrow>
     (k, e) \<in> set fd
     \<or> (\<exists>v fld ct. (k, v) \<in> set es \<and> fm k = Some fld
            \<and> transformCodaValue h v fld ct u = Some e)"
proof (induction es arbitrary: fd)
  case Nil
  then show ?case by simp
next
  case (Cons x xs)
  obtain k0 v0 where x: "x = (k0, v0)" by (cases x)
  from Cons.prems
  have "(k, e) \<in> set (fold (fieldDataStep h fm tm u) xs (fieldDataStep h fm tm u x fd))"
    by simp
  from Cons.IH [OF this] show ?case
  proof
    assume mem: "(k, e) \<in> set (fieldDataStep h fm tm u x fd)"
    from fieldDataStep_cases [of h fm tm u k0 v0 fd] show ?thesis
    proof
      assume "fieldDataStep h fm tm u (k0, v0) fd = fd"
      with mem x show ?thesis by simp
    next
      assume "\<exists>fld e. fm k0 = Some fld
         \<and> transformCodaValue h v0 fld (codaTypeOf tm k0) u = Some e
         \<and> fieldDataStep h fm tm u (k0, v0) fd = AList.update k0 e fd"
      then obtain fld e0 where fm: "fm k0 = Some fld"
        and tr: "transformCodaValue h v0 fld (codaTypeOf tm k0) u = Some e0"
        and st: "fieldDataStep h fm tm u (k0, v0) fd = AList.update k0 e0 fd"
        by blast
      from mem have "(k, e) = (k0, e0) \<or> (k, e) \<in> set fd"
        unfolding x st by (rule set_update_cases)
      then show ?thesis
      proof
        assume "(k, e) = (k0, e0)"
        with fm tr have "(k, v0) \<in> set (x # xs) \<and> fm k = Some fld
            \<and> transformCodaValue h v0 fld (codaTypeOf tm k0) u = Some e"
          unfolding x by simp
        then show ?thesis by blast
      next
        assume "(k, e) \<in> set fd"
        then show ?thesis by simp
      qed
    qed
  next
    assume "\<exists>v fld ct. (k, v) \<in> set xs \<and> fm k = Some fld
              \<and> transformCodaValue h v fld ct u = Some e"
    then obtain v fld ct where "(k, v) \<in> set (x # xs)" "fm k = Some fld"
      "transformCodaValue h v fld ct u = Some e" by auto
    then show ?thesis by blast
  qed
qed

lemma buildFieldData_entries:
  "(k, e) \<in> set (buildFieldData h fm tm u entries) \<Longrightarrow>
     \<exists>v fld ct. (k, v) \<in> set entries \<and> fm k = Some fld
        \<and> transformCodaValue h v fld ct u = Some e"
  using fold_fieldDataStep_entries [of k e h fm tm u entries "[]"]
  by (simp add: buildFieldData_def)



lemma mapCodaTypeToFramerType_id:
  "mapCodaTypeToFramerType col = Some f \<Longrightarrow> field_id f = column_id col"
  unfolding mapCodaTypeToFramerType_def Let_def mkField_def
  by (simp split: if_splits) auto

lemma mapColumn_id: "fst (mapColumn rm col) = Some f \<Longrightarrow> field_id f = column_id col"
  using mapCodaTypeToFramerType_id [of col]
  by (auto simp: mapColumn_def Let_def mkField_def split: option.splits if_splits)

lemma mappedFields_ids:
  "map field_id (mappedFields rm columns)
     = map column_id (filter (\<lambda>col. fst (mapColumn rm col) \<noteq> None) columns)"
proof (induction columns)
  case Nil
  then show ?case by (simp add: mappedFields_def List.map_filter_simps)
next
  case (Cons c cs)
  show ?case
  proof (cases "fst (mapColumn rm c)")
    case None
    with Cons show ?thesis by (simp add: mappedFields_def List.map_filter_simps)
  next
    case (Some f)
    then have "field_id f = column_id c" by (rule mapColumn_id)
    with Some Cons show ?thesis by (simp add: mappedFields_def List.map_filter_simps)
  qed
qed

lemma finalFields_ids:
  "map field_id (finalFields rm columns rows) = map field_id (mappedFields rm columns)"
  by (simp add: finalFields_def Let_def comp_def)

lemma finalFields_distinct:
  "distinct (map column_id columns) \<Longrightarrow> distinct (map field_id (finalFields rm columns rows))"
  by (simp add: finalFields_ids mappedFields_ids distinct_map_filter)

text \<open>
  Claim C9. In every item that \<open>buildFieldsAndItems\<close> produces, every entry of the field
  data has the type tag of an output field whose id is the key of the entry: the field that
  the id map of the output fields holds for that key. With distinct column ids the output
  fields have distinct ids, so that field is the only one. For a field of one of the eleven
  known types, whatever \<open>transformCodaValue\<close> returns carries the type of the field.
\<close>

theorem entry_type_is_field_type:
  "(\<forall>it \<in> set (result_items
                  (buildFieldsAndItems h columns rows slugFieldId referenceMap use12HourTime)).
      \<forall>(k, e) \<in> set (fieldData it).
        \<exists>fld \<in> set (result_fields
                  (buildFieldsAndItems h columns rows slugFieldId referenceMap use12HourTime)).
          field_id fld = k
          \<and> fieldMap (result_fields
                  (buildFieldsAndItems h columns rows slugFieldId referenceMap use12HourTime)) k
              = Some fld
          \<and> entry_type e = field_type fld)
   \<and> (distinct (map column_id columns) \<longrightarrow>
        distinct (map field_id (result_fields
                  (buildFieldsAndItems h columns rows slugFieldId referenceMap use12HourTime))))
   \<and> ((\<forall>x. field_type f \<noteq> FOther x)
        \<and> transformCodaValue h v f codaColumnType use12HourTime = Some entry1
        \<longrightarrow> entry_type entry1 = field_type f)"
proof (intro conjI ballI impI)
  let ?R = "buildFieldsAndItems h columns rows slugFieldId referenceMap use12HourTime"
  let ?fs = "finalFields referenceMap columns rows"
  note R = buildFieldsAndItems_rows [of h columns rows slugFieldId referenceMap use12HourTime]
  from R have fs: "result_fields ?R = ?fs" by simp
  {
    fix it ke
    assume it: "it \<in> set (result_items ?R)" and ke: "ke \<in> set (fieldData it)"
    obtain k e where [simp]: "ke = (k, e)" by (cases ke)
    from it R obtain row where
      "it = rowItem h (fieldMap ?fs) (codaColumnTypeMap columns) use12HourTime
              (the (row_id row)) (the (extractSlugValue h (rowValue row slugFieldId))) row"
      by auto
    with ke have "(k, e) \<in> set (buildFieldData h (fieldMap ?fs) (codaColumnTypeMap columns)
                               use12HourTime (row_values row))"
      by (simp add: rowItem_def)
    from buildFieldData_entries [OF this] obtain v fld ct where
      fm: "fieldMap ?fs k = Some fld"
      and tr: "transformCodaValue h v fld ct use12HourTime = Some e"
      by blast
    from fieldMap_Some [OF fm] have mem: "fld \<in> set ?fs" and id: "field_id fld = k" by simp_all
    from mem have "\<forall>x. field_type fld \<noteq> FOther x" by (simp add: finalFields_known)
    with tr have "entry_type e = field_type fld" by (rule transformCodaValue_tag)
    with mem id fm
    show "case ke of (k, e) \<Rightarrow>
            \<exists>fld \<in> set (result_fields ?R).
              field_id fld = k \<and> fieldMap (result_fields ?R) k = Some fld
              \<and> entry_type e = field_type fld"
      unfolding fs by auto
  }
  {
    assume "distinct (map column_id columns)"
    then show "distinct (map field_id (result_fields ?R))"
      unfolding fs by (rule finalFields_distinct)
  }
  {
    assume "(\<forall>x. field_type f \<noteq> FOther x)
        \<and> transformCodaValue h v f codaColumnType use12HourTime = Some entry1"
    then show "entry_type entry1 = field_type f"
      using transformCodaValue_tag by blast
  }
qed


lemmas mapper_eval = mapCodaTypeToFramerType_def mapColumn_def mappedFields_def
  fieldWarnings_def enumChoices_def mkField_def isArrayColumn_def isLookupField_def
  finalFields_def List.map_filter_simps Let_def

lemmas transform_eval = transformCodaValue_def isBlank_def entry_def stringValue_def
  extractMeaningfulText_def stripMarkdown_def extractSlugValue_def rowValue_def
  keptRow_def rowItem_def buildFieldData_def fieldDataStep_def codaTypeOf_def
  fieldMap_def codaColumnTypeMap_def


lemma example_batch:
  "result_fields (buildFieldsAndItems
       \<lparr>Number_toString = (\<lambda>n. []), new_Date = (\<lambda>s. None), JSON_stringify = (\<lambda>v. []),
        marked_parse = (\<lambda>s. s), sanitizeHtml = (\<lambda>s. s)\<rparr>
       [\<lparr>column_id = cu ''c1'', column_name = cu ''Title'',
         column_format = \<lparr>format_type = cu ''text'', format_isArray = None,
                           format_table = None, format_options = None\<rparr>\<rparr>,
        \<lparr>column_id = cu ''c2'', column_name = cu ''Price'',
         column_format = \<lparr>format_type = cu ''number'', format_isArray = None,
                           format_table = None, format_options = None\<rparr>\<rparr>,
        \<lparr>column_id = cu ''c3'', column_name = cu ''Due'',
         column_format = \<lparr>format_type = cu ''date'', format_isArray = None,
                           format_table = None, format_options = None\<rparr>\<rparr>]
       [\<lparr>row_id = Some (cu ''r1''),
         row_values = [(cu ''c1'', JStr (cu ''Hello'')), (cu ''c2'', JStr []),
                       (cu ''c3'', JNull)]\<rparr>]
       (cu ''c1'') Map.empty False)
     = [\<lparr>field_id = cu ''c1'', field_name = cu ''Title'', field_type = FString,
         field_cases = None, collectionId = None, allowedFileTypes = None\<rparr>,
        \<lparr>field_id = cu ''c2'', field_name = cu ''Price'', field_type = FNumber,
         field_cases = None, collectionId = None, allowedFileTypes = None\<rparr>,
        \<lparr>field_id = cu ''c3'', field_name = cu ''Due'', field_type = FDate,
         field_cases = None, collectionId = None, allowedFileTypes = None\<rparr>]
   \<and> result_items (buildFieldsAndItems
       \<lparr>Number_toString = (\<lambda>n. []), new_Date = (\<lambda>s. None), JSON_stringify = (\<lambda>v. []),
        marked_parse = (\<lambda>s. s), sanitizeHtml = (\<lambda>s. s)\<rparr>
       [\<lparr>column_id = cu ''c1'', column_name = cu ''Title'',
         column_format = \<lparr>format_type = cu ''text'', format_isArray = None,
                           format_table = None, format_options = None\<rparr>\<rparr>,
        \<lparr>column_id = cu ''c2'', column_name = cu ''Price'',
         column_format = \<lparr>format_type = cu ''number'', format_isArray = None,
                           format_table = None, format_options = None\<rparr>\<rparr>,
        \<lparr>column_id = cu ''c3'', column_name = cu ''Due'',
         column_format = \<lparr>format_type = cu ''date'', format_isArray = None,
                           format_table = None, format_options = None\<rparr>\<rparr>]
       [\<lparr>row_id = Some (cu ''r1''),
         row_values = [(cu ''c1'', JStr (cu ''Hello'')), (cu ''c2'', JStr []),
                       (cu ''c3'', JNull)]\<rparr>]
       (cu ''c1'') Map.empty False)
     = [\<lparr>item_id = cu ''r1'', slug = cu ''Hello'', draft = False,
         fieldData = [(cu ''c1'', \<lparr>entry_type = FString, entry_value = JStr (cu ''Hello'')\<rparr>),
                      (cu ''c2'', \<lparr>entry_type = FNumber, entry_value = JNum (Fin 0)\<rparr>)]\<rparr>]"
proof -
  let ?h = "\<lparr>Number_toString = (\<lambda>n. []), new_Date = (\<lambda>s. None), JSON_stringify = (\<lambda>v. []),
        marked_parse = (\<lambda>s. s), sanitizeHtml = (\<lambda>s. s)\<rparr>"
  let ?cols = "[\<lparr>column_id = cu ''c1'', column_name = cu ''Title'',
         column_format = \<lparr>format_type = cu ''text'', format_isArray = None,
                           format_table = None, format_options = None\<rparr>\<rparr>,
        \<lparr>column_id = cu ''c2'', column_name = cu ''Price'',
         column_format = \<lparr>format_type = cu ''number'', format_isArray = None,
                           format_table = None, format_options = None\<rparr>\<rparr>,
        \<lparr>column_id = cu ''c3'', column_name = cu ''Due'',
         column_format = \<lparr>format_type = cu ''date'', format_isArray = None,
                           format_table = None, format_options = None\<rparr>\<rparr>]"
  let ?rows = "[\<lparr>row_id = Some (cu ''r1''),
         row_values = [(cu ''c1'', JStr (cu ''Hello'')), (cu ''c2'', JStr []),
                       (cu ''c3'', JNull)]\<rparr>]"
  have fs: "finalFields Map.empty ?cols ?rows
     = [\<lparr>field_id = cu ''c1'', field_name = cu ''Title'', field_type = FString,
         field_cases = None, collectionId = None, allowedFileTypes = None\<rparr>,
        \<lparr>field_id = cu ''c2'', field_name = cu ''Price'', field_type = FNumber,
         field_cases = None, collectionId = None, allowedFileTypes = None\<rparr>,
        \<lparr>field_id = cu ''c3'', field_name = cu ''Due'', field_type = FDate,
         field_cases = None, collectionId = None, allowedFileTypes = None\<rparr>]"
    by (simp add: mapper_eval str_eval)
  have items: "map (\<lambda>row. rowItem ?h (fieldMap (finalFields Map.empty ?cols ?rows))
                       (codaColumnTypeMap ?cols) False (the (row_id row))
                       (the (extractSlugValue ?h (rowValue row (cu ''c1'')))) row)
             (filter (keptRow ?h (cu ''c1'')) ?rows)
     = [\<lparr>item_id = cu ''r1'', slug = cu ''Hello'', draft = False,
         fieldData = [(cu ''c1'', \<lparr>entry_type = FString, entry_value = JStr (cu ''Hello'')\<rparr>),
                      (cu ''c2'', \<lparr>entry_type = FNumber, entry_value = JNum (Fin 0)\<rparr>)]\<rparr>]"
    unfolding fs by (simp add: transform_eval str_eval)
  note R = buildFieldsAndItems_rows [of ?h ?cols ?rows "cu ''c1''" Map.empty False]
  have a: "result_fields (buildFieldsAndItems ?h ?cols ?rows (cu ''c1'') Map.empty False)
             = finalFields Map.empty ?cols ?rows"
    by (rule R [THEN conjunct2, THEN conjunct2, THEN conjunct2])
  show ?thesis
    by (rule conjI [OF trans [OF a fs] trans [OF R [THEN conjunct1] items]])
qed

theorem entry_type_is_field_type_witness:
  "\<exists>fld \<in> set (result_fields (buildFieldsAndItems
       \<lparr>Number_toString = (\<lambda>n. []), new_Date = (\<lambda>s. None), JSON_stringify = (\<lambda>v. []),
        marked_parse = (\<lambda>s. s), sanitizeHtml = (\<lambda>s. s)\<rparr>
       [\<lparr>column_id = cu ''c1'', column_name = cu ''Title'',
         column_format = \<lparr>format_type = cu ''text'', format_isArray = None,
                           format_table = None, format_options = None\<rparr>\<rparr>,
        \<lparr>column_id = cu ''c2'', column_name = cu ''Price'',
         column_format = \<lparr>format_type = cu ''number'', format_isArray = None,
                           format_table = None, format_options = None\<rparr>\<rparr>,
        \<lparr>column_id = cu ''c3'', column_name = cu ''Due'',
         column_format = \<lparr>format_type = cu ''date'', format_isArray = None,
                           format_table = None, format_options = None\<rparr>\<rparr>]
       [\<lparr>row_id = Some (cu ''r1''),
         row_values = [(cu ''c1'', JStr (cu ''Hello'')), (cu ''c2'', JStr []),
                       (cu ''c3'', JNull)]\<rparr>]
       (cu ''c1'') Map.empty False)).
     field_id fld = cu ''c2'' \<and> field_type fld = FNumber"
  using entry_type_is_field_type
    [of "\<lparr>Number_toString = (\<lambda>n. []), new_Date = (\<lambda>s. None), JSON_stringify = (\<lambda>v. []),
        marked_parse = (\<lambda>s. s), sanitizeHtml = (\<lambda>s. s)\<rparr>"
       "[\<lparr>column_id = cu ''c1'', column_name = cu ''Title'',
         column_format = \<lparr>format_type = cu ''text'', format_isArray = None,
                           format_table = None, format_options = None\<rparr>\<rparr>,
        \<lparr>column_id = cu ''c2'', column_name = cu ''Price'',
         column_format = \<lparr>format_type = cu ''number'', format_isArray = None,
                           format_table = None, format_options = None\<rparr>\<rparr>,
        \<lparr>column_id = cu ''c3'', column_name = cu ''Due'',
         column_format = \<lparr>format_type = cu ''date'', format_isArray = None,
                           format_table = None, format_options = None\<rparr>\<rparr>]"
       "[\<lparr>row_id = Some (cu ''r1''),
         row_values = [(cu ''c1'', JStr (cu ''Hello'')), (cu ''c2'', JStr []),
                       (cu ''c3'', JNull)]\<rparr>]"
       "cu ''c1''" Map.empty False
       "\<lparr>field_id = cu ''c2'', field_name = cu ''Price'', field_type = FNumber,
         field_cases = None, collectionId = None, allowedFileTypes = None\<rparr>"
       "JStr []" "cu ''number''" "\<lparr>entry_type = FNumber, entry_value = JNum (Fin 0)\<rparr>"]
  by (simp only: example_batch [THEN conjunct1] example_batch [THEN conjunct2])
     (simp add: cu_def)


section \<open>Properties of the Enum Domain Synthesizer\<close>

lemma set_fold_set_add:
  "set (fold (\<lambda>x vs. set_add vs x) xs vs) = set vs \<union> set xs"
  by (induction xs arbitrary: vs) (auto simp: set_add_def)

lemma fold_set_add_absorb:
  "set xs \<subseteq> set vs \<Longrightarrow> fold (\<lambda>x vs. set_add vs x) xs vs = vs"
  by (induction xs arbitrary: vs) (auto simp: set_add_def)

lemma fold_set_add_idem:
  "fold (\<lambda>x vs. set_add vs x) xs (fold (\<lambda>x vs. set_add vs x) xs vs)
     = fold (\<lambda>x vs. set_add vs x) xs vs"
  by (rule fold_set_add_absorb) (simp add: set_fold_set_add)

lemma fold_set_add_first_occurrences:
  "distinct vs \<Longrightarrow> fold (\<lambda>x vs. set_add vs x) xs vs = rev (remdups (rev (vs @ xs)))"
proof (induction xs arbitrary: vs)
  case Nil
  then show ?case by (simp add: distinct_remdups_id)
next
  case (Cons x xs)
  show ?case
  proof (cases "x \<in> set vs")
    case True
    have r: "remdups (x # rev vs) = remdups (rev vs)"
      using True by simp
    have "remdups (rev xs @ x # rev vs) = remdups (rev xs @ remdups (x # rev vs))"
      by (simp only: remdups_append2)
    also have "\<dots> = remdups (rev xs @ rev vs)"
      unfolding r by (simp only: remdups_append2)
    finally have "remdups (rev xs @ x # rev vs) = remdups (rev xs @ rev vs)" .
    with True Cons.IH [OF Cons.prems] show ?thesis by (simp add: set_add_def)
  next
    case False
    with Cons.prems have "distinct (vs @ [x])" by simp
    from Cons.IH [OF this] False show ?thesis by (simp add: set_add_def)
  qed
qed

lemma scanCell_eq:
  "scanCell row fld sets
     = sets(field_id fld :=
         map_option (fold (\<lambda>x vs. set_add vs x) (cellLabels (rowValue row (field_id fld))))
           (sets (field_id fld)))"
proof (cases "truthy (rowValue row (field_id fld))")
  case True
  then show ?thesis
    by (cases "sets (field_id fld)")
       (auto simp: scanCell_def cellLabels_def Let_def fold_map comp_def)
next
  case False
  then have "cellLabels (rowValue row (field_id fld)) = []" by (simp add: cellLabels_def)
  with False show ?thesis
    by (cases "sets (field_id fld)") (auto simp: scanCell_def Let_def)
qed

lemma fold_scanCell:
  "fold (scanCell row) fs sets k
     = (if k \<in> field_id ` set fs
        then map_option (fold (\<lambda>x vs. set_add vs x) (cellLabels (rowValue row k))) (sets k)
        else sets k)"
proof (induction fs arbitrary: sets)
  case Nil
  then show ?case by simp
next
  case (Cons f fs)
  let ?add = "\<lambda>k. fold (\<lambda>x vs. set_add vs x) (cellLabels (rowValue row k))"
  let ?s1 = "scanCell row f sets"
  have s1: "?s1 = sets(field_id f := map_option (?add (field_id f)) (sets (field_id f)))"
    by (rule scanCell_eq)
  have idem: "map_option (?add k) (map_option (?add k) (sets k)) = map_option (?add k) (sets k)"
    by (cases "sets k") (simp_all add: fold_set_add_idem)
  have "fold (scanCell row) (f # fs) sets k = fold (scanCell row) fs ?s1 k" by simp
  also have "\<dots> = (if k \<in> field_id ` set fs then map_option (?add k) (?s1 k) else ?s1 k)"
    by (rule Cons.IH)
  also have "\<dots> = (if k \<in> field_id ` set (f # fs) then map_option (?add k) (sets k) else sets k)"
  proof (cases "k = field_id f")
    case True
    then have "?s1 k = map_option (?add k) (sets k)" by (simp add: s1)
    with True idem show ?thesis by simp
  next
    case False
    then have "?s1 k = sets k" by (simp add: s1)
    with False show ?thesis by auto
  qed
  finally show ?case .
qed

lemma fold_rows_scan:
  "fold (\<lambda>row sets. fold (scanCell row) fs sets) rows sets k
     = (if k \<in> field_id ` set fs
        then map_option (fold (\<lambda>x vs. set_add vs x) (scannedLabels rows k)) (sets k)
        else sets k)"
proof (induction rows arbitrary: sets)
  case Nil
  show ?case by (cases "sets k") (simp_all add: scannedLabels_def)
next
  case (Cons r rs)
  let ?F = "\<lambda>row sets. fold (scanCell row) fs sets"
  let ?s1 = "fold (scanCell r) fs sets"
  have sl: "scannedLabels (r # rs) k = cellLabels (rowValue r k) @ scannedLabels rs k"
    by (simp add: scannedLabels_def)
  have s1: "?s1 k = (if k \<in> field_id ` set fs
        then map_option (fold (\<lambda>x vs. set_add vs x) (cellLabels (rowValue r k))) (sets k)
        else sets k)"
    by (rule fold_scanCell)
  have "fold ?F (r # rs) sets k = fold ?F rs ?s1 k" by simp
  also have "\<dots> = (if k \<in> field_id ` set fs
        then map_option (fold (\<lambda>x vs. set_add vs x) (scannedLabels rs k)) (?s1 k)
        else ?s1 k)"
    by (rule Cons.IH)
  also have "\<dots> = (if k \<in> field_id ` set fs
        then map_option (fold (\<lambda>x vs. set_add vs x) (scannedLabels (r # rs) k)) (sets k)
        else sets k)"
    unfolding s1 sl by (cases "sets k") simp_all
  finally show ?case .
qed

lemma init_sets:
  "fold (\<lambda>fld sets. sets(field_id fld \<mapsto> [])) fs sets k
     = (if k \<in> field_id ` set fs then Some [] else sets k)"
  by (induction fs arbitrary: sets) auto

lemma lookupValueSets_eq:
  "lookupValueSets fs rows k
     = (if k \<in> field_id ` set fs
        then Some (rev (remdups (rev (scannedLabels rows k))))
        else None)"
  by (simp add: lookupValueSets_def fold_rows_scan init_sets fold_set_add_first_occurrences)


lemma finalFields_eq:
  "finalFields rm columns rows
     = map (\<lambda>fld. if isLookupField columns fld
                  then synthesizeCases
                         (lookupValueSets (filter (isLookupField columns) (mappedFields rm columns))
                            rows) fld
                  else fld)
           (mappedFields rm columns)"
proof (cases "filter (isLookupField columns) (mappedFields rm columns) = []")
  case True
  then have "\<forall>fld \<in> set (mappedFields rm columns). \<not> isLookupField columns fld"
    by (simp add: filter_empty_conv)
  then have "map (\<lambda>fld. if isLookupField columns fld
                  then synthesizeCases
                         (lookupValueSets (filter (isLookupField columns) (mappedFields rm columns))
                            rows) fld
                  else fld)
           (mappedFields rm columns) = mappedFields rm columns"
    by (simp add: map_idI)
  with True show ?thesis by (simp add: finalFields_def Let_def)
next
  case False
  then show ?thesis by (simp add: finalFields_def Let_def)
qed

lemma first_occurrences_filter:
  "filter P (rev (remdups (rev xs))) = rev (remdups (rev (filter P xs)))"
  by (simp add: rev_filter remdups_filter)

lemma synthesizeCases_lookup:
  assumes "fld \<in> set fs" and "isLookupField columns fld" and "field_cases fld = Some cs"
  shows "synthesizeCases (lookupValueSets (filter (isLookupField columns) fs) rows) fld
     = fld\<lparr>field_cases :=
             Some (map (\<lambda>l. \<lparr>case_id = l, case_name = l\<rparr>)
                     (rev (remdups (rev (filter (\<lambda>l. l \<noteq> [])
                                           (scannedLabels rows (field_id fld)))))))\<rparr>"
proof -
  from assms(1,2) have "field_id fld \<in> field_id ` set (filter (isLookupField columns) fs)"
    by simp
  then have "lookupValueSets (filter (isLookupField columns) fs) rows (field_id fld)
               = Some (rev (remdups (rev (scannedLabels rows (field_id fld)))))"
    by (simp only: lookupValueSets_eq if_True)
  with assms(3) show ?thesis
    by (simp add: synthesizeCases_def first_occurrences_filter)
qed

text \<open>
  Claim C4. Take a lookup column that the Type Mapper maps to an enum field with an empty
  case list (a scalar lookup column: it has no declared choices). The field that
  \<open>buildFieldsAndItems\<close> outputs for it has the case list made from the labels scanned in
  all rows (the extracted strings, each without a fence at its very start and end and then
  trimmed of white space): the empty labels are left out, of equal labels only the first
  occurrence is kept, in the order of the first occurrences (this is
  \<open>rev (remdups (rev labels))\<close>, since \<open>remdups\<close> keeps last occurrences), and the id and the
  name of a case are both the label. The case ids are distinct, and they are exactly the
  non-empty scanned labels. The result is a function of the input, so a repeated run on the
  same input gives the same cases.
\<close>

theorem enum_cases_synthesized:
  assumes col: "col \<in> set columns"
    and lookup: "toLowerCase (format_type (column_format col)) = cu ''lookup''"
    and enum: "mapCodaTypeToFramerType col
                 = Some ((mkField col FEnum)\<lparr>field_cases := Some []\<rparr>)"
  shows "\<lparr>field_id = column_id col, field_name = column_name col, field_type = FEnum,
          field_cases =
            Some (map (\<lambda>l. \<lparr>case_id = l, case_name = l\<rparr>)
                    (rev (remdups (rev (filter (\<lambda>l. l \<noteq> [])
                                          (scannedLabels rows (column_id col))))))),
          collectionId = None, allowedFileTypes = None\<rparr>
           \<in> set (result_fields
                    (buildFieldsAndItems h columns rows slugFieldId referenceMap use12HourTime))
       \<and> distinct (map case_id
                     (map (\<lambda>l. \<lparr>case_id = l, case_name = l\<rparr>)
                        (rev (remdups (rev (filter (\<lambda>l. l \<noteq> [])
                                              (scannedLabels rows (column_id col))))))))
       \<and> set (rev (remdups (rev (filter (\<lambda>l. l \<noteq> []) (scannedLabels rows (column_id col))))))
           = set (scannedLabels rows (column_id col)) - {[]}"
proof (intro conjI)
  let ?R = "buildFieldsAndItems h columns rows slugFieldId referenceMap use12HourTime"
  let ?f = "(mkField col FEnum)\<lparr>field_cases := Some []\<rparr>"
  let ?labels = "rev (remdups (rev (filter (\<lambda>l. l \<noteq> []) (scannedLabels rows (column_id col)))))"
  let ?fs = "mappedFields referenceMap columns"
  let ?g = "\<lambda>fld. if isLookupField columns fld
                  then synthesizeCases
                         (lookupValueSets (filter (isLookupField columns) ?fs) rows) fld
                  else fld"
  have mc: "fst (mapColumn referenceMap col) = Some ?f"
    using enum by (simp add: mapColumn_def mkField_def)
  then have mem: "?f \<in> set ?fs"
    using col by (auto simp: mappedFields_set)
  have "List.find (\<lambda>c. column_id c = field_id ?f
                      \<and> toLowerCase (format_type (column_format c)) = cu ''lookup''
                      \<and> field_type ?f = FEnum) columns \<noteq> None"
    using col lookup by (auto simp: find_None_iff mkField_def)
  then have lf: "isLookupField columns ?f" by (simp add: isLookupField_def)
  have "?g ?f = ?f\<lparr>field_cases :=
             Some (map (\<lambda>l. \<lparr>case_id = l, case_name = l\<rparr>)
                     (rev (remdups (rev (filter (\<lambda>l. l \<noteq> [])
                                           (scannedLabels rows (field_id ?f)))))))\<rparr>"
    using synthesizeCases_lookup [OF mem lf, of "[]" rows] lf by (simp add: mkField_def)
  moreover have "?g ?f \<in> set (map ?g ?fs)"
    unfolding set_map using mem by (rule imageI)
  moreover have "result_fields ?R = map ?g ?fs"
    using buildFieldsAndItems_rows [of h columns rows slugFieldId referenceMap use12HourTime]
    by (simp only: finalFields_eq [symmetric])
  ultimately show "\<lparr>field_id = column_id col, field_name = column_name col, field_type = FEnum,
          field_cases = Some (map (\<lambda>l. \<lparr>case_id = l, case_name = l\<rparr>) ?labels),
          collectionId = None, allowedFileTypes = None\<rparr> \<in> set (result_fields ?R)"
    by (simp add: mkField_def)
next
  show "distinct (map case_id
                     (map (\<lambda>l. \<lparr>case_id = l, case_name = l\<rparr>)
                        (rev (remdups (rev (filter (\<lambda>l. l \<noteq> [])
                                              (scannedLabels rows (column_id col))))))))"
    by (simp add: comp_def)
next
  show "set (rev (remdups (rev (filter (\<lambda>l. l \<noteq> []) (scannedLabels rows (column_id col))))))
           = set (scannedLabels rows (column_id col)) - {[]}"
    by auto
qed


theorem enum_cases_synthesized_witness:
  "\<lparr>field_id = cu ''c2'', field_name = cu ''Colour'', field_type = FEnum,
     field_cases = Some [\<lparr>case_id = cu ''Red'', case_name = cu ''Red''\<rparr>,
                         \<lparr>case_id = cu ''Blue'', case_name = cu ''Blue''\<rparr>,
                         \<lparr>case_id = cu ''Green'', case_name = cu ''Green''\<rparr>,
                         \<lparr>case_id = cu ''Teal'', case_name = cu ''Teal''\<rparr>],
     collectionId = None, allowedFileTypes = None\<rparr>
   \<in> set (result_fields (buildFieldsAndItems
       \<lparr>Number_toString = (\<lambda>n. []), new_Date = (\<lambda>s. None), JSON_stringify = (\<lambda>v. []),
        marked_parse = (\<lambda>s. s), sanitizeHtml = (\<lambda>s. s)\<rparr>
       [\<lparr>column_id = cu ''c2'', column_name = cu ''Colour'',
         column_format = \<lparr>format_type = cu ''lookup'', format_isArray = None,
                           format_table = None, format_options = None\<rparr>\<rparr>]
       [\<lparr>row_id = Some (cu ''r1''), row_values = [(cu ''c2'', JStr (cu ''Red''))]\<rparr>,
        \<lparr>row_id = Some (cu ''r2''), row_values = [(cu ''c2'', JStr (cu ''Blue''))]\<rparr>,
        \<lparr>row_id = Some (cu ''r3''), row_values = [(cu ''c2'', JStr (cu '' Red  ''))]\<rparr>,
        \<lparr>row_id = None,
         row_values = [(cu ''c2'', JStr ([96, 96, 96] @ cu ''Green'' @ [96, 96, 96]))]\<rparr>,
        \<lparr>row_id = Some (cu ''r5''),
         row_values = [(cu ''c2'', JArr [JStr (cu ''Blue''),
                                        JObj [(cu ''name'', JStr (cu ''Teal''))],
                                        JStr (cu ''  '')])]\<rparr>]
       (cu ''c1'') Map.empty False))"
proof -
  let ?col = "\<lparr>column_id = cu ''c2'', column_name = cu ''Colour'',
         column_format = \<lparr>format_type = cu ''lookup'', format_isArray = None,
                           format_table = None, format_options = None\<rparr>\<rparr>"
  let ?rows = "[\<lparr>row_id = Some (cu ''r1''), row_values = [(cu ''c2'', JStr (cu ''Red''))]\<rparr>,
        \<lparr>row_id = Some (cu ''r2''), row_values = [(cu ''c2'', JStr (cu ''Blue''))]\<rparr>,
        \<lparr>row_id = Some (cu ''r3''), row_values = [(cu ''c2'', JStr (cu '' Red  ''))]\<rparr>,
        \<lparr>row_id = None,
         row_values = [(cu ''c2'', JStr ([96, 96, 96] @ cu ''Green'' @ [96, 96, 96]))]\<rparr>,
        \<lparr>row_id = Some (cu ''r5''),
         row_values = [(cu ''c2'', JArr [JStr (cu ''Blue''),
                                        JObj [(cu ''name'', JStr (cu ''Teal''))],
                                        JStr (cu ''  '')])]\<rparr>]"
  have l: "toLowerCase (format_type (column_format ?col)) = cu ''lookup''"
    by (simp add: str_eval)
  have m: "mapCodaTypeToFramerType ?col = Some ((mkField ?col FEnum)\<lparr>field_cases := Some []\<rparr>)"
    by (simp add: mapper_eval str_eval)
  have labels: "scannedLabels ?rows (column_id ?col)
      = [cu ''Red'', cu ''Blue'', cu ''Red'', cu ''Green'', cu ''Blue'', cu ''Teal'', []]"
    by (simp add: scannedLabels_def cellLabels_def rowValue_def extractLookupValues_def
          lookupLabel_def stripFenceEnds_def str_eval)
  have firsts: "rev (remdups (rev (filter (\<lambda>l. l \<noteq> [])
                   [cu ''Red'', cu ''Blue'', cu ''Red'', cu ''Green'', cu ''Blue'', cu ''Teal'', []])))
      = [cu ''Red'', cu ''Blue'', cu ''Green'', cu ''Teal'']"
    by (simp add: cu_def)
  show ?thesis
    using enum_cases_synthesized [of ?col "[?col]" ?rows
        "\<lparr>Number_toString = (\<lambda>n. []), new_Date = (\<lambda>s. None), JSON_stringify = (\<lambda>v. []),
          marked_parse = (\<lambda>s. s), sanitizeHtml = (\<lambda>s. s)\<rparr>" "cu ''c1''" Map.empty False,
        OF _ l m, THEN conjunct1]
    unfolding labels firsts by simp
qed

section \<open>Properties of the number coercion\<close>





end
